theory Spec2Isabelle
  imports Complex_Main
begin

section \<open>Values of the platform\<close>

text \<open>
  The client is a TypeScript class \<open>MCPClient\<close> (src/index.ts) that talks to two
  external parties: a chat-completions endpoint (\<open>this.openai.chat.completions.create\<close>)
  and a tool backend reached through \<open>this.client\<close> (\<open>connect\<close>, \<open>listTools\<close>,
  \<open>callTool\<close>). Both are taken as parameters of the model, together with the built-ins
  \<open>JSON.parse\<close>, \<open>JSON.stringify\<close> and the process environment.

  A JavaScript string is modelled by the bytes of its UTF-8 encoding (\<open>string\<close>); a
  structured value by \<open>json\<close>. A number carries the rational value of its literal:
  rounding to binary64 is not modelled.
\<close>

datatype json =
    JNull
  | JBool bool
  | JNum rat
  | JStr string
  | JArr "json list"
  | JObj "(string \<times> json) list"

text \<open>
  What can be thrown: \<open>new Error(msg)\<close> of the code itself, the \<open>SyntaxError\<close> of
  \<open>JSON.parse\<close>, the \<open>TypeError\<close> of reading a property of \<open>undefined\<close>, and the
  rejection of a promise of one of the external parties.
\<close>

datatype exn = Error string | SyntaxError | TypeError | Rejected string

text \<open>\<open>x || d\<close> on an optional string: \<open>undefined\<close>, \<open>null\<close> and \<open>''\<close> are falsy.\<close>

definition or_default :: "string option \<Rightarrow> string \<Rightarrow> string" where
  "or_default x d = (case x of None \<Rightarrow> d | Some v \<Rightarrow> if v = [] then d else v)"

text \<open>\<open>String.prototype.endsWith\<close>.\<close>

definition endsWith :: "string \<Rightarrow> string \<Rightarrow> bool" where
  "endsWith s searchString =
     (length searchString \<le> length s \<and>
      drop (length s - length searchString) s = searchString)"

section \<open>Data\<close>

text \<open>
  A tool as \<open>listTools\<close> resolves it: the declared type has a required \<open>name\<close> and
  an optional \<open>description\<close>. A response of the backend that does not fit the type
  never reaches the code: the client rejects it, and \<open>listTools\<close> throws.
\<close>

record raw_tool =
  name :: string
  description :: "string option"
  inputSchema :: json

text \<open>
  An entry of \<open>this.tools\<close>: \<open>{type: 'function', function: {name, description,
  parameters}}\<close>. The field \<open>type\<close> is the constant \<open>'function'\<close> and is left out;
  \<open>fn_name\<close> is \<open>function.name\<close>, and so on. The declaration sent in a chat request
  has the field \<open>strict\<close> in addition.
\<close>

record chat_tool =
  fn_name :: string
  fn_description :: string
  fn_parameters :: json

record request_tool = chat_tool +
  strict :: bool

text \<open>
  A tool call of an assistant message: \<open>tc_id\<close> is \<open>toolCall.id\<close>, \<open>tc_name\<close> is
  \<open>toolCall.function.name\<close>, \<open>tc_arguments\<close> is \<open>toolCall.function.arguments\<close>.
\<close>

record tool_call =
  tc_id :: string
  tc_name :: string
  tc_arguments :: string

datatype role = System | User | Assistant | Tool

record message =
  role :: role
  content :: "string option"
  tool_calls :: "tool_call list option"
  tool_call_id :: "string option"

record choice =
  message :: message

record completion =
  choices :: "choice list"

text \<open>
  The result of \<open>callTool\<close>. The code reads \<open>result.content\<close> only; \<open>isError\<close>,
  the flag a backend sets on a result that reports the failure of the tool, is carried
  and never read.
\<close>

record tool_response =
  result_content :: json
  isError :: bool

record chat_request =
  model :: string
  messages :: "message list"
  tools :: "request_tool list option"
  temperature :: rat
  top_p :: rat
  top_k :: "nat option"
  frequency_penalty :: "rat option"
  n_choices :: "nat option"
  max_tokens :: nat
  stop :: "json option"
  stream :: bool
  response_format :: "string option"

section \<open>Effects\<close>

text \<open>
  Every call that leaves the class is written to a trace, with its arguments and, for a
  call of an external party, its outcome. The console calls carry what they print.
\<close>

datatype log_item =
    Starting string string
  | Converted_tools "chat_tool list"
  | Request_params chat_request
  | Tool_result tool_response
  | Last_messages "message list"
  | Connect_failed exn
  | Query_failed exn

datatype event =
    Console_log log_item
  | Console_error log_item
  | New_transport string "string list"
  | New_client string string
  | Client_connect string "string list" "exn option"
  | List_tools "exn + raw_tool list"
  | Call_tool string json "exn + tool_response"
  | Chat_create chat_request "exn + completion"

text \<open>
  The external parties. Each answers from a state of its own (\<open>'w\<close>: the world) and may
  change it, so the same request can be answered differently the second time.
  \<open>JSON_parse\<close> returns \<open>None\<close> where \<open>JSON.parse\<close> throws.
\<close>

record 'w env =
  JSON_parse :: "string \<Rightarrow> json option"
  JSON_stringify :: "json \<Rightarrow> string"
  OPENAI_MODEL :: "string option"
  connect :: "string \<Rightarrow> string list \<Rightarrow> 'w \<Rightarrow> exn option \<times> 'w"
  listTools :: "'w \<Rightarrow> (exn + raw_tool list) \<times> 'w"
  callTool :: "string \<Rightarrow> json \<Rightarrow> 'w \<Rightarrow> (exn + tool_response) \<times> 'w"
  create :: "chat_request \<Rightarrow> 'w \<Rightarrow> (exn + completion) \<times> 'w"

text \<open>The object: \<open>this.tools\<close>, with the world and the trace so far.\<close>

record 'w MCPClient =
  world :: 'w
  trace :: "event list"
  this_tools :: "chat_tool list"

definition emit :: "event \<Rightarrow> 'w MCPClient \<Rightarrow> 'w MCPClient" where
  "emit e s = s\<lparr>trace := trace s @ [e]\<rparr>"

text \<open>\<open>catch (error) { console.error(..., error); throw error; }\<close>\<close>

definition rethrow_logged ::
  "(exn \<Rightarrow> log_item) \<Rightarrow> (exn + 'a) \<times> 'w MCPClient \<Rightarrow> (exn + 'a) \<times> 'w MCPClient" where
  "rethrow_logged item res =
     (case res of
        (Inl e, s) \<Rightarrow> (Inl e, emit (Console_error (item e)) s)
      | (Inr v, s) \<Rightarrow> (Inr v, s))"

section \<open>connectToServer\<close>

text \<open>The parameter schema written into every tool (the strings are UTF-8).\<close>

definition latlon_schema :: json where
  "latlon_schema =
     JObj [(''type'', JStr ''object''),
           (''properties'',
              JObj [(''latitude'',
                       JObj [(''type'', JStr ''number''),
                             (''description'',
                                JStr [CHR 0xE7, CHR 0xBA, CHR 0xAC, CHR 0xE5, CHR 0xBA, CHR 0xA6])]),
                    (''longitude'',
                       JObj [(''type'', JStr ''number''),
                             (''description'',
                                JStr [CHR 0xE7, CHR 0xBB, CHR 0x8F, CHR 0xE5, CHR 0xBA, CHR 0xA6])])]),
           (''required'', JArr [JStr ''latitude'', JStr ''longitude''])]"

definition to_chat_tool :: "raw_tool \<Rightarrow> chat_tool" where
  "to_chat_tool tool =
     \<lparr>fn_name = name tool,
      fn_description = or_default (description tool) [],
      fn_parameters = latlon_schema\<rparr>"

text \<open>The body of the \<open>try\<close> block.\<close>

definition connect_try ::
  "'w env \<Rightarrow> string \<Rightarrow> string \<Rightarrow> 'w MCPClient \<Rightarrow> (exn + unit) \<times> 'w MCPClient" where
  "connect_try E command serverPath s =
     (let s1 = emit (New_transport command [serverPath]) s;
          s2 = emit (New_client ''weather-client'' ''1.0.0'') s1;
          (r, w) = connect E command [serverPath] (world s2);
          s3 = emit (Client_connect command [serverPath] r) (s2\<lparr>world := w\<rparr>)
      in case r of
           Some e \<Rightarrow> (Inl e, s3)
         | None \<Rightarrow>
             (let (response, w') = listTools E (world s3);
                  s4 = emit (List_tools response) (s3\<lparr>world := w'\<rparr>)
              in case response of
                   Inl e \<Rightarrow> (Inl e, s4)
                 | Inr raw \<Rightarrow>
                     (let s5 = s4\<lparr>this_tools := map to_chat_tool raw\<rparr>
                      in (Inr (), emit (Console_log (Converted_tools (this_tools s5))) s5))))"

definition connectToServer ::
  "'w env \<Rightarrow> string \<Rightarrow> 'w MCPClient \<Rightarrow> (exn + unit) \<times> 'w MCPClient" where
  "connectToServer E serverPath s =
     (let isJS = endsWith serverPath ''.js'';
          isPython = endsWith serverPath ''.py''
      in if \<not> isJS \<and> \<not> isPython
         then (Inl (Error ''Server script must be a .py or .js file''), s)
         else
           (let command = (if isPython then ''python'' else ''node'');
                s1 = emit (Console_log (Starting command serverPath)) s
            in rethrow_logged Connect_failed (connect_try E command serverPath s1)))"

section \<open>processQuery\<close>

definition system_prompt :: string where
  "system_prompt =
     [CHR 0xE4, CHR 0xBD, CHR 0xA0, CHR 0xE6, CHR 0x98, CHR 0xAF, CHR 0xE4, CHR 0xB8, CHR 0x80,
      CHR 0xE4, CHR 0xB8, CHR 0xAA, CHR 0xE5, CHR 0xA4, CHR 0xA9, CHR 0xE6, CHR 0xB0, CHR 0x94,
      CHR 0xE5, CHR 0x8A, CHR 0xA9, CHR 0xE6, CHR 0x89, CHR 0x8B, CHR 0xEF, CHR 0xBC, CHR 0x8C,
      CHR 0xE5, CHR 0x8F, CHR 0xAF, CHR 0xE4, CHR 0xBB, CHR 0xA5, CHR 0xE5, CHR 0xB8, CHR 0xAE,
      CHR 0xE5, CHR 0x8A, CHR 0xA9, CHR 0xE7, CHR 0x94, CHR 0xA8, CHR 0xE6, CHR 0x88, CHR 0xB7,
      CHR 0xE6, CHR 0x9F, CHR 0xA5, CHR 0xE8, CHR 0xAF, CHR 0xA2, CHR 0xE5, CHR 0xA4, CHR 0xA9,
      CHR 0xE6, CHR 0xB0, CHR 0x94, CHR 0xE4, CHR 0xBF, CHR 0xA1, CHR 0xE6, CHR 0x81, CHR 0xAF,
      CHR 0xE3, CHR 0x80, CHR 0x82]"

definition initial_messages :: "string \<Rightarrow> message list" where
  "initial_messages query =
     [\<lparr>role = System, content = Some system_prompt, tool_calls = None, tool_call_id = None\<rparr>,
      \<lparr>role = User, content = Some query, tool_calls = None, tool_call_id = None\<rparr>]"

definition requestParams :: "chat_tool list \<Rightarrow> message list \<Rightarrow> chat_request" where
  "requestParams registered msgs =
     \<lparr>model = ''deepseek-ai/DeepSeek-V2.5'',
      messages = msgs,
      tools = Some (map (\<lambda>tool.
                 \<lparr>fn_name = fn_name tool,
                  fn_description = fn_description tool,
                  fn_parameters = latlon_schema,
                  strict = False\<rparr>) registered),
      temperature = 7 / 10,
      top_p = 7 / 10,
      top_k = Some 50,
      frequency_penalty = Some (1 / 2),
      n_choices = Some 1,
      max_tokens = 512,
      stop = Some JNull,
      stream = False,
      response_format = Some ''text''\<rparr>"

definition finalParams :: "'w env \<Rightarrow> message list \<Rightarrow> chat_request" where
  "finalParams E msgs =
     \<lparr>model = or_default (OPENAI_MODEL E) ''gpt-4'',
      messages = msgs,
      tools = None,
      temperature = 7 / 10,
      top_p = 7 / 10,
      top_k = None,
      frequency_penalty = None,
      n_choices = None,
      max_tokens = 512,
      stop = None,
      stream = False,
      response_format = None\<rparr>"

text \<open>
  \<open>completion.choices[0].message\<close>: with no choice, \<open>choices[0]\<close> is \<open>undefined\<close>
  and reading \<open>.message\<close> throws.
\<close>

definition first_message :: "completion \<Rightarrow> exn + message" where
  "first_message c = (case choices c of [] \<Rightarrow> Inl TypeError | ch # _ \<Rightarrow> Inr (message ch))"

text \<open>
  The \<open>for ... of\<close> loop over the tool calls. Each round parses the arguments, awaits
  \<open>callTool\<close>, logs the result and pushes two messages; a throw leaves the loop. (The
  array \<open>results\<close> is written and never read; it is left out.)
\<close>

fun dispatch ::
  "'w env \<Rightarrow> tool_call list \<Rightarrow> message list \<Rightarrow> 'w MCPClient \<Rightarrow>
     (exn + message list) \<times> 'w MCPClient" where
  "dispatch E [] msgs s = (Inr msgs, s)"
| "dispatch E (toolCall # rest) msgs s =
     (case JSON_parse E (tc_arguments toolCall) of
        None \<Rightarrow> (Inl SyntaxError, s)
      | Some toolArgs \<Rightarrow>
          (let (r, w) = callTool E (tc_name toolCall) toolArgs (world s);
               s1 = emit (Call_tool (tc_name toolCall) toolArgs r) (s\<lparr>world := w\<rparr>)
           in case r of
                Inl e \<Rightarrow> (Inl e, s1)
              | Inr result \<Rightarrow>
                  dispatch E rest
                    (msgs @
                      [\<lparr>role = Assistant, content = None,
                        tool_calls = Some [toolCall], tool_call_id = None\<rparr>,
                       \<lparr>role = Tool,
                        content = Some (JSON_stringify E (result_content result)),
                        tool_calls = None, tool_call_id = Some (tc_id toolCall)\<rparr>])
                    (emit (Console_log (Tool_result result)) s1)))"

text \<open>An awaited chat request, written to the trace with its outcome.\<close>

definition chat ::
  "'w env \<Rightarrow> chat_request \<Rightarrow> 'w MCPClient \<Rightarrow> (exn + completion) \<times> 'w MCPClient" where
  "chat E rq s =
     (let (r, w) = create E rq (world s)
      in (r, emit (Chat_create rq r) (s\<lparr>world := w\<rparr>)))"

text \<open>The branch taken when \<open>assistantMessage.tool_calls\<close> is truthy.\<close>

definition with_tool_calls ::
  "'w env \<Rightarrow> tool_call list \<Rightarrow> message list \<Rightarrow> 'w MCPClient \<Rightarrow>
     (exn + string) \<times> 'w MCPClient" where
  "with_tool_calls E calls msgs s =
     (case dispatch E calls msgs s of
        (Inl e, s1) \<Rightarrow> (Inl e, s1)
      | (Inr msgs', s1) \<Rightarrow>
          (let s2 = emit (Console_log (Last_messages msgs')) s1
           in case chat E (finalParams E msgs') s2 of
                (Inl e, s3) \<Rightarrow> (Inl e, s3)
              | (Inr finalResponse, s3) \<Rightarrow>
                  (case first_message finalResponse of
                     Inl e \<Rightarrow> (Inl e, s3)
                   | Inr m \<Rightarrow> (Inr (or_default (content m) []), s3))))"

text \<open>The body of the \<open>try\<close> block.\<close>

definition query_try ::
  "'w env \<Rightarrow> string \<Rightarrow> 'w MCPClient \<Rightarrow> (exn + string) \<times> 'w MCPClient" where
  "query_try E query s =
     (let msgs = initial_messages query;
          params = requestParams (this_tools s) msgs;
          s1 = emit (Console_log (Request_params params)) s
      in case chat E params s1 of
           (Inl e, s2) \<Rightarrow> (Inl e, s2)
         | (Inr completion, s2) \<Rightarrow>
             (case first_message completion of
                Inl e \<Rightarrow> (Inl e, s2)
              | Inr assistantMessage \<Rightarrow>
                  (case tool_calls assistantMessage of
                     Some calls \<Rightarrow> with_tool_calls E calls msgs s2
                   | None \<Rightarrow> (Inr (or_default (content assistantMessage) []), s2))))"

definition processQuery ::
  "'w env \<Rightarrow> string \<Rightarrow> 'w MCPClient \<Rightarrow> (exn + string) \<times> 'w MCPClient" where
  "processQuery E query s = rethrow_logged Query_failed (query_try E query s)"


section \<open>Observing a run\<close>

text \<open>
  What the properties below speak about: the chat requests and the backend invocations of
  a trace, in the order they were made; the events a call of \<open>processQuery\<close> or
  \<open>connectToServer\<close> adds to the trace; the first request of a query and its answer.
\<close>

fun chat_requests :: "event list \<Rightarrow> (chat_request \<times> (exn + completion)) list" where
  "chat_requests [] = []"
| "chat_requests (Chat_create rq out # tr) = (rq, out) # chat_requests tr"
| "chat_requests (_ # tr) = chat_requests tr"

fun tool_invocations :: "event list \<Rightarrow> (string \<times> json \<times> (exn + tool_response)) list" where
  "tool_invocations [] = []"
| "tool_invocations (Call_tool n a out # tr) = (n, a, out) # tool_invocations tr"
| "tool_invocations (_ # tr) = tool_invocations tr"

definition call_pair :: "'w env \<Rightarrow> tool_call \<Rightarrow> tool_response \<Rightarrow> message list" where
  "call_pair E c res =
     [\<lparr>role = Assistant, content = None, tool_calls = Some [c], tool_call_id = None\<rparr>,
      \<lparr>role = Tool, content = Some (JSON_stringify E (result_content res)),
        tool_calls = None, tool_call_id = Some (tc_id c)\<rparr>]"

definition events_of :: "'w MCPClient \<Rightarrow> 'w MCPClient \<Rightarrow> event list" where
  "events_of s s' = drop (length (trace s)) (trace s')"

definition query_events :: "'w env \<Rightarrow> string \<Rightarrow> 'w MCPClient \<Rightarrow> event list" where
  "query_events E query s = events_of s (snd (processQuery E query s))"

definition first_request :: "'w MCPClient \<Rightarrow> string \<Rightarrow> chat_request" where
  "first_request s query = requestParams (this_tools s) (initial_messages query)"

definition first_outcome :: "'w env \<Rightarrow> string \<Rightarrow> 'w MCPClient \<Rightarrow> exn + completion" where
  "first_outcome E query s = fst (create E (first_request s query) (world s))"

definition first_response :: "'w env \<Rightarrow> string \<Rightarrow> 'w MCPClient \<Rightarrow> exn + message" where
  "first_response E query s =
     (case first_outcome E query s of Inl e \<Rightarrow> Inl e | Inr c \<Rightarrow> first_message c)"

definition final_answer :: "exn + completion \<Rightarrow> exn + string" where
  "final_answer out =
     (case out of
        Inl e \<Rightarrow> Inl e
      | Inr finalResponse \<Rightarrow>
          (case choices finalResponse of
             [] \<Rightarrow> Inl TypeError
           | ch # _ \<Rightarrow> Inr (or_default (content (message ch)) [])))"

definition connect_events :: "'w env \<Rightarrow> string \<Rightarrow> 'w MCPClient \<Rightarrow> event list" where
  "connect_events E serverPath s = events_of s (snd (connectToServer E serverPath s))"

fun console_events :: "event list \<Rightarrow> event list" where
  "console_events [] = []"
| "console_events (Console_log x # tr) = Console_log x # console_events tr"
| "console_events (Console_error x # tr) = Console_error x # console_events tr"
| "console_events (_ # tr) = console_events tr"

text \<open>The command \<open>connectToServer\<close> chooses for a path.\<close>

definition command_of :: "string \<Rightarrow> string" where
  "command_of serverPath = (if endsWith serverPath ''.py'' then ''python'' else ''node'')"

text \<open>The transports a trace creates and connects, with their commands.\<close>

fun transports :: "event list \<Rightarrow> (string \<times> string list) list" where
  "transports [] = []"
| "transports (New_transport c a # tr) = (c, a) # transports tr"
| "transports (Client_connect c a r # tr) = (c, a) # transports tr"
| "transports (_ # tr) = transports tr"

text \<open>The world as the first chat request of a query leaves it.\<close>

definition world_after_first :: "'w env \<Rightarrow> string \<Rightarrow> 'w MCPClient \<Rightarrow> 'w" where
  "world_after_first E query s = snd (create E (first_request s query) (world s))"

text \<open>
  Sequential dispatch, in the words of the specification: the calls are processed one
  after the other in the order the model emitted them; for each, the arguments are parsed
  and the named tool is invoked with the parsed value, on the backend as the previous
  invocation left it. The sequence ends with the first call whose arguments do not parse
  or whose invocation is rejected. The result is the list of the invocations made, each
  with the name and the value the backend received and what it answered, and the world
  after the last of them.
\<close>

fun backend_calls ::
  "'w env \<Rightarrow> tool_call list \<Rightarrow> 'w \<Rightarrow> (string \<times> json \<times> (exn + tool_response)) list \<times> 'w" where
  "backend_calls E [] w = ([], w)"
| "backend_calls E (c # cs) w =
     (case JSON_parse E (tc_arguments c) of
        None \<Rightarrow> ([], w)
      | Some a \<Rightarrow>
          (case callTool E (tc_name c) a w of
             (Inl e, w') \<Rightarrow> ([(tc_name c, a, Inl e)], w')
           | (Inr res, w') \<Rightarrow>
               (case backend_calls E cs w' of
                  (rest, w'') \<Rightarrow> ((tc_name c, a, Inr res) # rest, w''))))"

section \<open>A parser for JSON\<close>

text \<open>
  \<open>JSON.parse\<close> is a built-in of the platform and a parameter of the model. The concrete
  scenario below instantiates it with \<open>json_parse\<close>, a parser of the JSON grammar:
  objects, arrays, numbers, the three literals, and strings with the single-character
  escapes (a unicode escape is not covered and counts as a syntax error here). The fuel
  of \<open>parse_value\<close> bounds the nesting; the length of the text is enough.
\<close>

definition is_ws :: "char \<Rightarrow> bool" where
  "is_ws c = (c = CHR '' '' \<or> c = CHR 0x09 \<or> c = CHR 0x0A \<or> c = CHR 0x0D)"

definition skip_ws :: "string \<Rightarrow> string" where
  "skip_ws cs = dropWhile is_ws cs"

definition is_digit :: "char \<Rightarrow> bool" where
  "is_digit c = (48 \<le> (of_char c :: nat) \<and> (of_char c :: nat) \<le> 57)"

definition digits_value :: "string \<Rightarrow> nat" where
  "digits_value ds = foldl (\<lambda>n c. 10 * n + ((of_char c :: nat) - 48)) 0 ds"

text \<open>\<open>-? int frac? exp?\<close>: the digits before the point have no leading zero.\<close>

definition parse_number :: "string \<Rightarrow> (rat \<times> string) option" where
  "parse_number cs =
     (let negative = (cs \<noteq> [] \<and> hd cs = CHR ''-'');
          cs1 = (if negative then tl cs else cs);
          ip = takeWhile is_digit cs1;
          cs2 = dropWhile is_digit cs1
      in if ip = [] \<or> (length ip > 1 \<and> hd ip = CHR ''0'') then None
         else
           (let has_frac = (cs2 \<noteq> [] \<and> hd cs2 = CHR ''.'');
                fp = (if has_frac then takeWhile is_digit (tl cs2) else []);
                cs3 = (if has_frac then dropWhile is_digit (tl cs2) else cs2)
            in if has_frac \<and> fp = [] then None
               else
                 (let has_exp = (cs3 \<noteq> [] \<and> (hd cs3 = CHR ''e'' \<or> hd cs3 = CHR ''E''));
                      cs4 = (if has_exp then tl cs3 else cs3);
                      exp_negative = (has_exp \<and> cs4 \<noteq> [] \<and> hd cs4 = CHR ''-'');
                      cs5 = (if has_exp \<and> cs4 \<noteq> [] \<and> (hd cs4 = CHR ''-'' \<or> hd cs4 = CHR ''+'')
                             then tl cs4 else cs4);
                      ep = (if has_exp then takeWhile is_digit cs5 else []);
                      cs6 = (if has_exp then dropWhile is_digit cs5 else cs3);
                      mantissa = of_nat (digits_value ip) + of_nat (digits_value fp) / 10 ^ length fp;
                      scaled = (if exp_negative then mantissa / 10 ^ digits_value ep
                                else mantissa * 10 ^ digits_value ep)
                  in if has_exp \<and> ep = [] then None
                     else Some (if negative then - scaled else scaled, cs6))))"

text \<open>A string after its opening quote, up to the closing one.\<close>

definition unescape :: "char \<Rightarrow> char option" where
  "unescape c =
     (if c = CHR 0x22 \<or> c = CHR 0x5C \<or> c = CHR ''/'' then Some c
      else if c = CHR ''b'' then Some (CHR 0x08)
      else if c = CHR ''f'' then Some (CHR 0x0C)
      else if c = CHR ''n'' then Some (CHR 0x0A)
      else if c = CHR ''r'' then Some (CHR 0x0D)
      else if c = CHR ''t'' then Some (CHR 0x09)
      else None)"

fun parse_string :: "string \<Rightarrow> (string \<times> string) option" where
  "parse_string [] = None"
| "parse_string [c] = (if c = CHR 0x22 then Some ([], []) else None)"
| "parse_string (c # d # cs) =
     (if c = CHR 0x22 then Some ([], d # cs)
      else if (of_char c :: nat) < 32 then None
      else if c = CHR 0x5C then
        (case unescape d of
           None \<Rightarrow> None
         | Some u \<Rightarrow> (case parse_string cs of None \<Rightarrow> None | Some (t, rest) \<Rightarrow> Some (u # t, rest)))
      else (case parse_string (d # cs) of None \<Rightarrow> None | Some (t, rest) \<Rightarrow> Some (c # t, rest)))"

definition starts_with :: "string \<Rightarrow> string \<Rightarrow> bool" where
  "starts_with p cs = (take (length p) cs = p)"

fun parse_value :: "nat \<Rightarrow> string \<Rightarrow> (json \<times> string) option"
  and parse_elements :: "nat \<Rightarrow> string \<Rightarrow> (json list \<times> string) option"
  and parse_members :: "nat \<Rightarrow> string \<Rightarrow> ((string \<times> json) list \<times> string) option" where
  "parse_value 0 cs = None"
| "parse_value (Suc n) cs =
     (let cs1 = skip_ws cs
      in if cs1 = [] then None
         else if hd cs1 = CHR ''{'' then
           (if starts_with ''}'' (skip_ws (tl cs1)) then Some (JObj [], tl (skip_ws (tl cs1)))
            else (case parse_members n (tl cs1) of
                    None \<Rightarrow> None | Some (ms, rest) \<Rightarrow> Some (JObj ms, rest)))
         else if hd cs1 = CHR ''['' then
           (if starts_with '']'' (skip_ws (tl cs1)) then Some (JArr [], tl (skip_ws (tl cs1)))
            else (case parse_elements n (tl cs1) of
                    None \<Rightarrow> None | Some (vs, rest) \<Rightarrow> Some (JArr vs, rest)))
         else if hd cs1 = CHR 0x22 then
           (case parse_string (tl cs1) of
              None \<Rightarrow> None | Some (t, rest) \<Rightarrow> Some (JStr t, rest))
         else if starts_with ''true'' cs1 then Some (JBool True, drop 4 cs1)
         else if starts_with ''false'' cs1 then Some (JBool False, drop 5 cs1)
         else if starts_with ''null'' cs1 then Some (JNull, drop 4 cs1)
         else (case parse_number cs1 of
                 None \<Rightarrow> None | Some (r, rest) \<Rightarrow> Some (JNum r, rest)))"
| "parse_elements 0 cs = None"
| "parse_elements (Suc n) cs =
     (case parse_value n cs of
        None \<Rightarrow> None
      | Some (v, rest) \<Rightarrow>
          (let cs1 = skip_ws rest
           in if starts_with '','' cs1 then
                (case parse_elements n (tl cs1) of
                   None \<Rightarrow> None | Some (vs, rest') \<Rightarrow> Some (v # vs, rest'))
              else if starts_with '']'' cs1 then Some ([v], tl cs1)
              else None))"
| "parse_members 0 cs = None"
| "parse_members (Suc n) cs =
     (let cs1 = skip_ws cs
      in if \<not> starts_with [CHR 0x22] cs1 then None
         else
           (case parse_string (tl cs1) of
              None \<Rightarrow> None
            | Some (k, rest) \<Rightarrow>
                (let cs2 = skip_ws rest
                 in if \<not> starts_with '':'' cs2 then None
                    else
                      (case parse_value n (tl cs2) of
                         None \<Rightarrow> None
                       | Some (v, rest') \<Rightarrow>
                           (let cs3 = skip_ws rest'
                            in if starts_with '','' cs3 then
                                 (case parse_members n (tl cs3) of
                                    None \<Rightarrow> None
                                  | Some (ms, rest'') \<Rightarrow> Some ((k, v) # ms, rest''))
                               else if starts_with ''}'' cs3 then Some ([(k, v)], tl cs3)
                               else None)))))"

definition json_parse :: "string \<Rightarrow> json option" where
  "json_parse s =
     (case parse_value (Suc (length s)) s of
        None \<Rightarrow> None
      | Some (v, rest) \<Rightarrow> if skip_ws rest = [] then Some v else None)"

section \<open>A concrete backend and endpoint\<close>

text \<open>
  The scenario of the specification: a backend with the tool \<open>get_forecast\<close>, which
  answers \<open>Sunny, 22C\<close> when the latitude it receives is a number and reports an error
  in its result otherwise, and the tool \<open>get_alerts\<close>, whose invocation is rejected; an
  endpoint that answers the request carrying tool declarations with \<open>m1\<close> and the one
  without with \<open>m2\<close>. The world counts the calls made so far. The transport starts for
  the commands \<open>node\<close> and \<open>python\<close> only.
\<close>

definition latlon_args :: string where
  "latlon_args = ''{\"latitude\": 37.7, \"longitude\": -122.4}''"

definition sunny :: tool_response where
  "sunny =
     \<lparr>result_content = JArr [JObj [(''type'', JStr ''text''), (''text'', JStr ''Sunny, 22C'')]],
      isError = False\<rparr>"

definition missing_latitude :: tool_response where
  "missing_latitude =
     \<lparr>result_content =
        JArr [JObj [(''type'', JStr ''text''), (''text'', JStr ''latitude must be a number'')]],
      isError = True\<rparr>"

definition forecast :: "json \<Rightarrow> tool_response" where
  "forecast a =
     (case a of
        JObj members \<Rightarrow>
          (case map_of members ''latitude'' of
             Some (JNum lat) \<Rightarrow> sunny
           | _ \<Rightarrow> missing_latitude)
      | _ \<Rightarrow> missing_latitude)"

definition demo_stringify :: "json \<Rightarrow> string" where
  "demo_stringify j =
     (if j = result_content sunny then ''[{\"type\":\"text\",\"text\":\"Sunny, 22C\"}]''
      else if j = result_content missing_latitude
      then ''[{\"type\":\"text\",\"text\":\"latitude must be a number\"}]''
      else ''null'')"

text \<open>
  The catalog as the backend sends it, where a name can be missing, and the check the
  client makes of it against the declared type before \<open>listTools\<close> resolves: a
  descriptor without a name makes \<open>listTools\<close> throw.
\<close>

record wire_tool =
  wire_name :: "string option"
  wire_description :: "string option"
  wire_inputSchema :: json

fun check_tools :: "wire_tool list \<Rightarrow> raw_tool list option" where
  "check_tools [] = Some []"
| "check_tools (t # ts) =
     (case wire_name t of
        None \<Rightarrow> None
      | Some n \<Rightarrow>
          (case check_tools ts of
             None \<Rightarrow> None
           | Some rs \<Rightarrow>
               Some (\<lparr>name = n, description = wire_description t,
                      inputSchema = wire_inputSchema t\<rparr> # rs)))"

definition checked_catalog :: "wire_tool list \<Rightarrow> exn + raw_tool list" where
  "checked_catalog ts =
     (case check_tools ts of
        None \<Rightarrow> Inl (Rejected ''Invalid tools/list result: name is required'')
      | Some rs \<Rightarrow> Inr rs)"

definition forecast_tool :: wire_tool where
  "forecast_tool =
     \<lparr>wire_name = Some ''get_forecast'', wire_description = Some ''Get weather forecast'',
      wire_inputSchema =
        JObj [(''type'', JStr ''object''),
              (''properties'', JObj [(''city'', JObj [(''type'', JStr ''string'')])])]\<rparr>"

definition demo_wire_catalog :: "wire_tool list" where
  "demo_wire_catalog =
     [\<lparr>wire_name = Some ''get_alerts'', wire_description = None, wire_inputSchema = JObj []\<rparr>,
      forecast_tool]"

definition nameless_wire_catalog :: "wire_tool list" where
  "nameless_wire_catalog =
     [\<lparr>wire_name = None, wire_description = None, wire_inputSchema = JObj []\<rparr>,
      forecast_tool]"

definition demo_catalog :: "raw_tool list" where
  "demo_catalog =
     [\<lparr>name = ''get_alerts'', description = None, inputSchema = JObj []\<rparr>,
      \<lparr>name = ''get_forecast'', description = Some ''Get weather forecast'',
       inputSchema = JObj [(''type'', JStr ''object''),
                           (''properties'', JObj [(''city'', JObj [(''type'', JStr ''string'')])])]\<rparr>]"

definition demo_env :: "message \<Rightarrow> message \<Rightarrow> string option \<Rightarrow> nat env" where
  "demo_env m1 m2 override =
     \<lparr>JSON_parse = json_parse,
      JSON_stringify = demo_stringify,
      OPENAI_MODEL = override,
      connect = (\<lambda>command args w.
         (if (command = ''node'' \<or> command = ''python'') \<and> args \<noteq> [] then None
          else Some (Rejected ''spawn failed''), Suc w)),
      listTools = (\<lambda>w. (checked_catalog demo_wire_catalog, Suc w)),
      callTool = (\<lambda>n a w.
         (if n = ''get_alerts'' then Inl (Rejected ''tool failed'') else Inr (forecast a), Suc w)),
      create = (\<lambda>rq w.
         (if tools rq = None then Inr \<lparr>choices = [\<lparr>message = m2\<rparr>]\<rparr>
          else Inr \<lparr>choices = [\<lparr>message = m1\<rparr>]\<rparr>, Suc w))\<rparr>"

definition demo_client :: "nat MCPClient" where
  "demo_client =
     \<lparr>world = 0, trace = [],
      this_tools = [\<lparr>fn_name = ''get_forecast'', fn_description = ''Get weather forecast'',
                     fn_parameters = latlon_schema\<rparr>]\<rparr>"

text \<open>A client that has not connected yet.\<close>

definition fresh_client :: "nat MCPClient" where
  "fresh_client = \<lparr>world = 0, trace = [], this_tools = []\<rparr>"

definition call_of :: "string \<Rightarrow> string \<Rightarrow> string \<Rightarrow> tool_call" where
  "call_of i n a = \<lparr>tc_id = i, tc_name = n, tc_arguments = a\<rparr>"

definition assistant_text :: "string option \<Rightarrow> tool_call list option \<Rightarrow> message" where
  "assistant_text t calls = \<lparr>role = Assistant, content = t, tool_calls = calls, tool_call_id = None\<rparr>"

definition two_calls :: "tool_call list" where
  "two_calls = [call_of ''call_A'' ''get_forecast'' latlon_args, call_of ''call_B'' ''get_forecast'' ''{}'']"

definition asks_two :: message where "asks_two = assistant_text None (Some two_calls)"
definition answers :: message where "answers = assistant_text (Some ''Sunny and 22C.'') None"

definition one_call :: "tool_call list" where
  "one_call = [call_of ''call_1'' ''get_forecast'' latlon_args]"

definition asks_one :: message where
  "asks_one = assistant_text None (Some one_call)"

definition plain_reply :: message where
  "plain_reply = assistant_text None None"

definition empty_calls_reply :: message where
  "empty_calls_reply = assistant_text (Some ''Hello'') (Some [])"

definition bad_calls :: "tool_call list" where
  "bad_calls =
     [call_of ''call_A'' ''get_forecast'' ''not json'',
      call_of ''call_B'' ''get_forecast'' latlon_args]"

definition asks_bad :: message where
  "asks_bad = assistant_text None (Some bad_calls)"

definition failing_calls :: "tool_call list" where
  "failing_calls =
     [call_of ''call_A'' ''get_alerts'' ''{}'',
      call_of ''call_B'' ''get_forecast'' latlon_args]"

definition asks_failing :: message where
  "asks_failing = assistant_text None (Some failing_calls)"


definition broken_call :: "tool_call list" where
  "broken_call = [call_of ''call_A'' ''get_forecast'' ''{}'']"

definition asks_broken :: message where
  "asks_broken = assistant_text None (Some broken_call)"

text \<open>A backend whose catalog has a descriptor without a name.\<close>

definition nameless_env :: "nat env" where
  "nameless_env =
     (demo_env plain_reply answers None)
       \<lparr>listTools := (\<lambda>w. (checked_catalog nameless_wire_catalog, Suc w))\<rparr>"

section \<open>The dispatch loop\<close>

lemma chat_requests_append: "chat_requests (xs @ ys) = chat_requests xs @ chat_requests ys"
  by (induction xs rule: chat_requests.induct) simp_all

lemma tool_invocations_append:
  "tool_invocations (xs @ ys) = tool_invocations xs @ tool_invocations ys"
  by (induction xs rule: tool_invocations.induct) simp_all

lemma emit_simps:
  "trace (emit e s) = trace s @ [e]"
  "world (emit e s) = world s"
  "this_tools (emit e s) = this_tools s"
  by (simp_all add: emit_def)

lemma events_of_append: "trace s' = trace s @ evs \<Longrightarrow> events_of s s' = evs"
  by (simp add: events_of_def)

lemma rethrow_logged_fst: "fst (rethrow_logged item res) = fst res"
  by (simp add: rethrow_logged_def split: prod.splits sum.splits)

lemma rethrow_logged_trace:
  "\<exists>tl. trace (snd (rethrow_logged item res)) = trace (snd res) @ tl \<and>
        chat_requests tl = [] \<and> tool_invocations tl = [] \<and> 
        this_tools (snd (rethrow_logged item res)) = this_tools (snd res)"
  by (cases res; cases "fst res") (auto simp: rethrow_logged_def emit_simps)

lemma or_default_empty: "or_default x [] = (case x of None \<Rightarrow> [] | Some t \<Rightarrow> t)"
  by (simp add: or_default_def split: option.splits)


lemma dispatch_Inr:
  "dispatch E calls msgs s = (Inr msgs', s') \<Longrightarrow>
     \<exists>evs args results.
        trace s' = trace s @ evs \<and> this_tools s' = this_tools s \<and>
        chat_requests evs = [] \<and>
        length args = length calls \<and> length results = length calls \<and>
        map (\<lambda>c. JSON_parse E (tc_arguments c)) calls = map Some args \<and>
        tool_invocations evs = map (\<lambda>(c, a, res). (tc_name c, a, Inr res)) (zip calls (zip args results)) \<and>
        msgs' = msgs @ concat (map (\<lambda>(c, res). call_pair E c res) (zip calls results))"
proof (induction calls arbitrary: msgs s)
  case Nil
  then show ?case by simp
next
  case (Cons c rest)
  from Cons.prems obtain a where a: "JSON_parse E (tc_arguments c) = Some a"
    by (cases "JSON_parse E (tc_arguments c)") simp_all
  obtain r w where rw: "callTool E (tc_name c) a (world s) = (r, w)"
    by (cases "callTool E (tc_name c) a (world s)")
  from Cons.prems a rw obtain res where res: "r = Inr res"
    by (cases r) (simp_all add: Let_def)
  define s1 where "s1 = emit (Console_log (Tool_result res)) (emit (Call_tool (tc_name c) a r) (s\<lparr>world := w\<rparr>))"
  have step: "dispatch E rest (msgs @ call_pair E c res) s1 = (Inr msgs', s')"
    using Cons.prems a rw res by (simp add: Let_def s1_def call_pair_def)
  from Cons.IH[OF step] obtain evs args results where ih:
    "trace s' = trace s1 @ evs" "this_tools s' = this_tools s1" "chat_requests evs = []"
    "length args = length rest" "length results = length rest"
    "map (\<lambda>c. JSON_parse E (tc_arguments c)) rest = map Some args"
    "tool_invocations evs = map (\<lambda>(c, a, res). (tc_name c, a, Inr res)) (zip rest (zip args results))"
    "msgs' = (msgs @ call_pair E c res) @ concat (map (\<lambda>(c, res). call_pair E c res) (zip rest results))"
    by blast
  have t1: "trace s1 = trace s @ [Call_tool (tc_name c) a r, Console_log (Tool_result res)]"
    and tt: "this_tools s1 = this_tools s"
    by (simp_all add: s1_def emit_def)
  show ?case
    apply (rule exI[of _ "[Call_tool (tc_name c) a r, Console_log (Tool_result res)] @ evs"])
    apply (rule exI[of _ "a # args"])
    apply (rule exI[of _ "res # results"])
    using ih t1 tt a res by simp
qed

lemma dispatch_Inl:
  "dispatch E calls msgs s = (Inl e, s') \<Longrightarrow>
     \<exists>evs args results.
        trace s' = trace s @ evs \<and> this_tools s' = this_tools s \<and>
        chat_requests evs = [] \<and>
        length args < length calls \<and> length results = length args \<and>
        map (\<lambda>c. JSON_parse E (tc_arguments c)) (take (length args) calls) = map Some args \<and>
        ((e = SyntaxError \<and> JSON_parse E (tc_arguments (calls ! length args)) = None \<and>
          tool_invocations evs =
            map (\<lambda>(c, a, res). (tc_name c, a, Inr res)) (zip calls (zip args results)))
         \<or> (\<exists>a. JSON_parse E (tc_arguments (calls ! length args)) = Some a \<and>
              tool_invocations evs =
                map (\<lambda>(c, a, res). (tc_name c, a, Inr res)) (zip calls (zip args results)) @
                [(tc_name (calls ! length args), a, Inl e)]))"
proof (induction calls arbitrary: msgs s)
  case Nil
  then show ?case by simp
next
  case (Cons c rest)
  show ?case
  proof (cases "JSON_parse E (tc_arguments c)")
    case None
    with Cons.prems have "e = SyntaxError" "s' = s" by simp_all
    with None show ?thesis
      by (intro exI[of _ "[]"]) simp
  next
    case (Some a)
    obtain r w where rw: "callTool E (tc_name c) a (world s) = (r, w)"
      by (cases "callTool E (tc_name c) a (world s)")
    show ?thesis
    proof (cases r)
      case (Inl e')
      with Cons.prems Some rw have "e' = e"
        and "s' = emit (Call_tool (tc_name c) a r) (s\<lparr>world := w\<rparr>)"
        by (auto simp add: Let_def)
      with Some Inl show ?thesis
        apply (intro exI[of _ "[Call_tool (tc_name c) a r]"] exI[of _ "[]"])
        by (simp add: emit_def)
    next
      case (Inr res)
      define s1 where
        "s1 = emit (Console_log (Tool_result res)) (emit (Call_tool (tc_name c) a r) (s\<lparr>world := w\<rparr>))"
      have step: "dispatch E rest (msgs @ call_pair E c res) s1 = (Inl e, s')"
        using Cons.prems Some rw Inr by (simp add: Let_def s1_def call_pair_def)
      from Cons.IH[OF step] obtain evs args results where ih:
        "trace s' = trace s1 @ evs" "this_tools s' = this_tools s1" "chat_requests evs = []"
        "length args < length rest" "length results = length args"
        "map (\<lambda>c. JSON_parse E (tc_arguments c)) (take (length args) rest) = map Some args"
        "(e = SyntaxError \<and> JSON_parse E (tc_arguments (rest ! length args)) = None \<and>
          tool_invocations evs =
            map (\<lambda>(c, a, res). (tc_name c, a, Inr res)) (zip rest (zip args results)))
         \<or> (\<exists>a. JSON_parse E (tc_arguments (rest ! length args)) = Some a \<and>
              tool_invocations evs =
                map (\<lambda>(c, a, res). (tc_name c, a, Inr res)) (zip rest (zip args results)) @
                [(tc_name (rest ! length args), a, Inl e)])"
        by blast
      have t1: "trace s1 = trace s @ [Call_tool (tc_name c) a r, Console_log (Tool_result res)]"
        and tt: "this_tools s1 = this_tools s"
        by (simp_all add: s1_def emit_def)
      show ?thesis
        apply (rule exI[of _ "[Call_tool (tc_name c) a r, Console_log (Tool_result res)] @ evs"])
        apply (rule exI[of _ "a # args"])
        apply (rule exI[of _ "res # results"])
        using ih t1 tt Some Inr by (auto simp: tool_invocations_append)
    qed
  qed
qed

lemma dispatch_backend:
  "dispatch E calls msgs s = (r, s') \<Longrightarrow>
     \<exists>evs. trace s' = trace s @ evs \<and> chat_requests evs = [] \<and>
        tool_invocations evs = fst (backend_calls E calls (world s)) \<and>
        world s' = snd (backend_calls E calls (world s))"
proof (induction calls arbitrary: msgs s)
  case Nil
  then show ?case by simp
next
  case (Cons c rest)
  show ?case
  proof (cases "JSON_parse E (tc_arguments c)")
    case None
    with Cons.prems show ?thesis by simp
  next
    case (Some a)
    obtain r1 w where rw: "callTool E (tc_name c) a (world s) = (r1, w)"
      by (cases "callTool E (tc_name c) a (world s)")
    show ?thesis
    proof (cases r1)
      case (Inl e)
      with Cons.prems Some rw
      have "s' = emit (Call_tool (tc_name c) a r1) (s\<lparr>world := w\<rparr>)"
        by (auto simp add: Let_def)
      with Some rw Inl show ?thesis
        by (intro exI[of _ "[Call_tool (tc_name c) a r1]"]) (simp add: emit_def)
    next
      case (Inr res)
      define s1 where
        "s1 = emit (Console_log (Tool_result res)) (emit (Call_tool (tc_name c) a r1) (s\<lparr>world := w\<rparr>))"
      have step: "dispatch E rest (msgs @ call_pair E c res) s1 = (r, s')"
        using Cons.prems Some rw Inr by (simp add: Let_def s1_def call_pair_def)
      from Cons.IH[OF step] obtain evs where ih:
        "trace s' = trace s1 @ evs" "chat_requests evs = []"
        "tool_invocations evs = fst (backend_calls E rest (world s1))"
        "world s' = snd (backend_calls E rest (world s1))"
        by blast
      have t1: "trace s1 = trace s @ [Call_tool (tc_name c) a r1, Console_log (Tool_result res)]"
        and w1: "world s1 = w"
        by (simp_all add: s1_def emit_def)
      show ?thesis
        apply (rule exI[of _ "[Call_tool (tc_name c) a r1, Console_log (Tool_result res)] @ evs"])
        using ih t1 w1 Some rw Inr by (simp add: tool_invocations_append split: prod.splits)
    qed
  qed
qed


lemma succeeded_length:
  "length results = length args \<Longrightarrow> length args \<le> length calls \<Longrightarrow>
   length (map (\<lambda>(c, a, res). (tc_name c, a, Inr res :: exn + tool_response))
      (zip calls (zip args results))) = length args"
  by simp

lemma succeeded_calls:
  "length results = length args \<Longrightarrow> length args \<le> length calls \<Longrightarrow>
   map (\<lambda>c. JSON_parse E (tc_arguments c)) (take (length args) calls) = map Some args \<Longrightarrow>
   map (\<lambda>(n, a, out). (n, Some a))
     (map (\<lambda>(c, a, res). (tc_name c, a, Inr res :: exn + tool_response))
        (zip calls (zip args results))) =
   map (\<lambda>c. (tc_name c, JSON_parse E (tc_arguments c))) (take (length args) calls)"
proof (induction args arbitrary: results calls)
  case Nil
  then show ?case by simp
next
  case (Cons a args)
  then show ?case by (cases results; cases calls) auto
qed

lemma succeeded_outcomes:
  "length results = length args \<Longrightarrow> length args \<le> length calls \<Longrightarrow>
   map (\<lambda>(n, a, out). out)
     (map (\<lambda>(c, a, res). (tc_name c, a, Inr res :: exn + tool_response))
        (zip calls (zip args results))) = map Inr results"
proof (induction args arbitrary: results calls)
  case Nil
  then show ?case by simp
next
  case (Cons a args)
  then show ?case by (cases results; cases calls) auto
qed

lemma succeeded_no_failure:
  "(n, a, Inl e) \<notin> set (map (\<lambda>(c, a, res). (tc_name c, a, Inr res :: exn + tool_response)) xs)"
  by auto

lemma parsed_nth:
  assumes "map f (take (length args) calls) = map Some args" and "length args \<le> length calls"
    and "j < length args"
  shows "f (calls ! j) = Some (args ! j)"
proof -
  have "map f (take (length args) calls) ! j = map Some args ! j"
    using assms(1) by simp
  then show ?thesis using assms(2,3) by simp
qed

section \<open>Runs of processQuery\<close>

lemma with_tool_calls_fail:
  "dispatch E calls msgs s = (Inl e, s1) \<Longrightarrow> with_tool_calls E calls msgs s = (Inl e, s1)"
  by (simp add: with_tool_calls_def)

lemma with_tool_calls_ok:
  "dispatch E calls msgs s = (Inr msgs', s1) \<Longrightarrow>
     \<exists>out2 s3. with_tool_calls E calls msgs s = (final_answer out2, s3) \<and>
        trace s3 = trace s1 @ [Console_log (Last_messages msgs'), Chat_create (finalParams E msgs') out2] \<and>
        this_tools s3 = this_tools s1 \<and>
        create E (finalParams E msgs') (world s1) = (out2, world s3)"
  by (auto simp: with_tool_calls_def chat_def final_answer_def first_message_def emit_simps Let_def
           split: prod.splits sum.splits list.splits)

lemma query_try_chat_failed:
  "first_response E q s = Inl e \<Longrightarrow>
     \<exists>s2. query_try E q s = (Inl e, s2) \<and>
       trace s2 = trace s @ [Console_log (Request_params (first_request s q)),
                             Chat_create (first_request s q) (first_outcome E q s)] \<and>
       this_tools s2 = this_tools s \<and> world s2 = world_after_first E q s"
  by (auto simp: first_response_def first_outcome_def first_request_def query_try_def chat_def
        world_after_first_def emit_simps Let_def split: prod.splits sum.splits)

lemma query_try_no_calls:
  "first_response E q s = Inr m \<Longrightarrow> tool_calls m = None \<Longrightarrow>
     \<exists>s2. query_try E q s = (Inr (or_default (content m) []), s2) \<and>
       trace s2 = trace s @ [Console_log (Request_params (first_request s q)),
                             Chat_create (first_request s q) (first_outcome E q s)] \<and>
       this_tools s2 = this_tools s \<and> world s2 = world_after_first E q s"
  by (auto simp: first_response_def first_outcome_def first_request_def query_try_def chat_def
        world_after_first_def emit_simps Let_def split: prod.splits sum.splits)

lemma query_try_calls:
  "first_response E q s = Inr m \<Longrightarrow> tool_calls m = Some calls \<Longrightarrow>
     \<exists>s2. query_try E q s = with_tool_calls E calls (initial_messages q) s2 \<and>
       trace s2 = trace s @ [Console_log (Request_params (first_request s q)),
                             Chat_create (first_request s q) (first_outcome E q s)] \<and>
       this_tools s2 = this_tools s \<and> world s2 = world_after_first E q s"
  by (auto simp: first_response_def first_outcome_def first_request_def query_try_def chat_def
        world_after_first_def emit_simps Let_def split: prod.splits sum.splits)

lemma processQuery_events:
  assumes "query_try E q s = (r, s3)" and "trace s3 = trace s @ evs"
  shows "fst (processQuery E q s) = r"
    and "chat_requests (query_events E q s) = chat_requests evs"
    and "tool_invocations (query_events E q s) = tool_invocations evs"
proof -
  show "fst (processQuery E q s) = r"
    using assms by (simp add: processQuery_def rethrow_logged_fst)
  obtain tl where tl: "trace (snd (processQuery E q s)) = trace s3 @ tl"
    "chat_requests tl = []" "tool_invocations tl = []"
    using rethrow_logged_trace[of Query_failed "query_try E q s"] assms
    by (auto simp: processQuery_def)
  then have "query_events E q s = evs @ tl"
    using assms by (simp add: query_events_def events_of_def)
  with tl show "chat_requests (query_events E q s) = chat_requests evs"
    and "tool_invocations (query_events E q s) = tool_invocations evs"
    by (simp_all add: chat_requests_append tool_invocations_append)
qed

lemma processQuery_calls:
  assumes "first_response E q s = Inr m" and "tool_calls m = Some calls"
  shows "\<exists>args results out2.
     length results = length args \<and> length args \<le> length calls \<and>
     map (\<lambda>c. JSON_parse E (tc_arguments c)) (take (length args) calls) = map Some args \<and>
     ((length args = length calls \<and>
       fst (processQuery E q s) = final_answer out2 \<and>
       chat_requests (query_events E q s) =
         [(first_request s q, first_outcome E q s),
          (finalParams E (initial_messages q @
              concat (map (\<lambda>(c, res). call_pair E c res) (zip calls results))), out2)] \<and>
       tool_invocations (query_events E q s) =
         map (\<lambda>(c, a, res). (tc_name c, a, Inr res)) (zip calls (zip args results)))
      \<or> (length args < length calls \<and>
          JSON_parse E (tc_arguments (calls ! length args)) = None \<and>
          fst (processQuery E q s) = Inl SyntaxError \<and>
          chat_requests (query_events E q s) = [(first_request s q, first_outcome E q s)] \<and>
          tool_invocations (query_events E q s) =
            map (\<lambda>(c, a, res). (tc_name c, a, Inr res)) (zip calls (zip args results)))
      \<or> (length args < length calls \<and>
          (\<exists>a e. JSON_parse E (tc_arguments (calls ! length args)) = Some a \<and>
             fst (processQuery E q s) = Inl e \<and>
             chat_requests (query_events E q s) = [(first_request s q, first_outcome E q s)] \<and>
             tool_invocations (query_events E q s) =
               map (\<lambda>(c, a, res). (tc_name c, a, Inr res)) (zip calls (zip args results)) @
               [(tc_name (calls ! length args), a, Inl e)])))"
proof -
  let ?c1 = "(first_request s q, first_outcome E q s)"
  let ?pre = "[Console_log (Request_params (first_request s q)),
               Chat_create (first_request s q) (first_outcome E q s)]"
  from query_try_calls[OF assms] obtain s2 where s2:
    "query_try E q s = with_tool_calls E calls (initial_messages q) s2"
    "trace s2 = trace s @ ?pre" by blast
  obtain r s3 where d: "dispatch E calls (initial_messages q) s2 = (r, s3)"
    by (cases "dispatch E calls (initial_messages q) s2")
  show ?thesis
  proof (cases r)
    case (Inl e)
    from dispatch_Inl[OF d[unfolded Inl]] obtain evs args results where f:
      "trace s3 = trace s2 @ evs" "chat_requests evs = []"
      "length args < length calls" "length results = length args"
      "map (\<lambda>c. JSON_parse E (tc_arguments c)) (take (length args) calls) = map Some args"
      "(e = SyntaxError \<and> JSON_parse E (tc_arguments (calls ! length args)) = None \<and>
          tool_invocations evs =
            map (\<lambda>(c, a, res). (tc_name c, a, Inr res)) (zip calls (zip args results)))
         \<or> (\<exists>a. JSON_parse E (tc_arguments (calls ! length args)) = Some a \<and>
              tool_invocations evs =
                map (\<lambda>(c, a, res). (tc_name c, a, Inr res)) (zip calls (zip args results)) @
                [(tc_name (calls ! length args), a, Inl e)])"
      by blast
    have q: "query_try E q s = (Inl e, s3)"
      using s2 with_tool_calls_fail[OF d[unfolded Inl]] by simp
    have t: "trace s3 = trace s @ (?pre @ evs)"
      using f(1) s2(2) by simp
    note pe = processQuery_events[OF q t]
    have cr: "chat_requests (query_events E q s) = [?c1]"
      using pe(2) f(2) by (simp add: chat_requests_append)
    have ti: "tool_invocations (query_events E q s) = tool_invocations evs"
      using pe(3) by (simp add: tool_invocations_append)
    show ?thesis
      apply (rule exI[of _ args], rule exI[of _ results], rule exI[of _ undefined])
      using f(3-6) pe(1) cr ti by auto
  next
    case (Inr msgs')
    from dispatch_Inr[OF d[unfolded Inr]] obtain evs args results where f:
      "trace s3 = trace s2 @ evs" "chat_requests evs = []"
      "length args = length calls" "length results = length calls"
      "map (\<lambda>c. JSON_parse E (tc_arguments c)) calls = map Some args"
      "tool_invocations evs =
         map (\<lambda>(c, a, res). (tc_name c, a, Inr res)) (zip calls (zip args results))"
      "msgs' = initial_messages q @
         concat (map (\<lambda>(c, res). call_pair E c res) (zip calls results))"
      by blast
    from with_tool_calls_ok[OF d[unfolded Inr]] obtain out2 s4 where w:
      "with_tool_calls E calls (initial_messages q) s2 = (final_answer out2, s4)"
      "trace s4 = trace s3 @ [Console_log (Last_messages msgs'),
                              Chat_create (finalParams E msgs') out2]"
      by blast
    have q: "query_try E q s = (final_answer out2, s4)"
      using s2 w by simp
    have t: "trace s4 = trace s @ (?pre @ evs @ [Console_log (Last_messages msgs'),
                              Chat_create (finalParams E msgs') out2])"
      using f(1) s2(2) w(2) by simp
    note pe = processQuery_events[OF q t]
    have cr: "chat_requests (query_events E q s) = [?c1, (finalParams E msgs', out2)]"
      using pe(2) f(2) by (simp add: chat_requests_append)
    have ti: "tool_invocations (query_events E q s) = tool_invocations evs"
      using pe(3) by (simp add: tool_invocations_append)
    show ?thesis
      apply (rule exI[of _ args], rule exI[of _ results], rule exI[of _ out2])
      using f(3-7) pe(1) cr ti by simp
  qed
qed

lemma processQuery_calls_cases:
  assumes "first_response E q s = Inr m" and "tool_calls m = Some calls"
  obtains (complete) args results out2 where
      "length results = length calls" "length args = length calls"
      "map (\<lambda>c. JSON_parse E (tc_arguments c)) calls = map Some args"
      "fst (processQuery E q s) = final_answer out2"
      "chat_requests (query_events E q s) =
         [(first_request s q, first_outcome E q s),
          (finalParams E (initial_messages q @
              concat (map (\<lambda>(c, res). call_pair E c res) (zip calls results))), out2)]"
      "tool_invocations (query_events E q s) =
         map (\<lambda>(c, a, res). (tc_name c, a, Inr res)) (zip calls (zip args results))"
  | (unparsed) args results where
      "length results = length args" "length args < length calls"
      "map (\<lambda>c. JSON_parse E (tc_arguments c)) (take (length args) calls) = map Some args"
      "JSON_parse E (tc_arguments (calls ! length args)) = None"
      "fst (processQuery E q s) = Inl SyntaxError"
      "chat_requests (query_events E q s) = [(first_request s q, first_outcome E q s)]"
      "tool_invocations (query_events E q s) =
         map (\<lambda>(c, a, res). (tc_name c, a, Inr res)) (zip calls (zip args results))"
  | (failed) args results a e where
      "length results = length args" "length args < length calls"
      "map (\<lambda>c. JSON_parse E (tc_arguments c)) (take (length args) calls) = map Some args"
      "JSON_parse E (tc_arguments (calls ! length args)) = Some a"
      "fst (processQuery E q s) = Inl e"
      "chat_requests (query_events E q s) = [(first_request s q, first_outcome E q s)]"
      "tool_invocations (query_events E q s) =
         map (\<lambda>(c, a, res). (tc_name c, a, Inr res)) (zip calls (zip args results)) @
         [(tc_name (calls ! length args), a, Inl e)]"
proof -
  from processQuery_calls[OF assms] obtain args results out2 where
    len: "length results = length args" "length args \<le> length calls" and
    parsed: "map (\<lambda>c. JSON_parse E (tc_arguments c)) (take (length args) calls) = map Some args" and
    h: "(length args = length calls \<and>
       fst (processQuery E q s) = final_answer out2 \<and>
       chat_requests (query_events E q s) =
         [(first_request s q, first_outcome E q s),
          (finalParams E (initial_messages q @
              concat (map (\<lambda>(c, res). call_pair E c res) (zip calls results))), out2)] \<and>
       tool_invocations (query_events E q s) =
         map (\<lambda>(c, a, res). (tc_name c, a, Inr res)) (zip calls (zip args results)))
      \<or> (length args < length calls \<and>
          JSON_parse E (tc_arguments (calls ! length args)) = None \<and>
          fst (processQuery E q s) = Inl SyntaxError \<and>
          chat_requests (query_events E q s) = [(first_request s q, first_outcome E q s)] \<and>
          tool_invocations (query_events E q s) =
            map (\<lambda>(c, a, res). (tc_name c, a, Inr res)) (zip calls (zip args results)))
      \<or> (length args < length calls \<and>
          (\<exists>a e. JSON_parse E (tc_arguments (calls ! length args)) = Some a \<and>
             fst (processQuery E q s) = Inl e \<and>
             chat_requests (query_events E q s) = [(first_request s q, first_outcome E q s)] \<and>
             tool_invocations (query_events E q s) =
               map (\<lambda>(c, a, res). (tc_name c, a, Inr res)) (zip calls (zip args results)) @
               [(tc_name (calls ! length args), a, Inl e)]))"
    by blast
  from h show thesis
  proof (elim disjE conjE exE)
    assume *: "length args = length calls"
      "fst (processQuery E q s) = final_answer out2"
      "chat_requests (query_events E q s) =
         [(first_request s q, first_outcome E q s),
          (finalParams E (initial_messages q @
              concat (map (\<lambda>(c, res). call_pair E c res) (zip calls results))), out2)]"
      "tool_invocations (query_events E q s) =
         map (\<lambda>(c, a, res). (tc_name c, a, Inr res)) (zip calls (zip args results))"
    show thesis
      by (rule complete[of results args out2]) (use * len parsed in simp_all)
  next
    assume *: "length args < length calls"
      "JSON_parse E (tc_arguments (calls ! length args)) = None"
      "fst (processQuery E q s) = Inl SyntaxError"
      "chat_requests (query_events E q s) = [(first_request s q, first_outcome E q s)]"
      "tool_invocations (query_events E q s) =
            map (\<lambda>(c, a, res). (tc_name c, a, Inr res)) (zip calls (zip args results))"
    show thesis
      by (rule unparsed[of results args]) (use * len parsed in simp_all)
  next
    fix a e
    assume *: "length args < length calls"
      "JSON_parse E (tc_arguments (calls ! length args)) = Some a"
      "fst (processQuery E q s) = Inl e"
      "chat_requests (query_events E q s) = [(first_request s q, first_outcome E q s)]"
      "tool_invocations (query_events E q s) =
               map (\<lambda>(c, a, res). (tc_name c, a, Inr res)) (zip calls (zip args results)) @
               [(tc_name (calls ! length args), a, Inl e)]"
    show thesis
      by (rule failed[of results args a e]) (use * len parsed in simp_all)
  qed
qed

lemma rethrow_logged_snd:
  "snd (rethrow_logged item (Inl e, s)) = emit (Console_error (item e)) s"
  "snd (rethrow_logged item (Inr v, s)) = s"
  by (simp_all add: rethrow_logged_def)

lemma processQuery_state:
  assumes "query_try E q s = (r, s3)" and "trace s3 = trace s @ evs"
  shows "world (snd (processQuery E q s)) = world s3"
    and "this_tools (snd (processQuery E q s)) = this_tools s3"
    and "query_events E q s =
           evs @ (case r of Inl e \<Rightarrow> [Console_error (Query_failed e)] | Inr v \<Rightarrow> [])"
  using assms
  by (cases r; simp add: processQuery_def rethrow_logged_snd query_events_def events_of_def
        emit_simps)+

lemma dispatch_extends:
  "\<exists>evs. trace (snd (dispatch E calls msgs s)) = trace s @ evs"
  using dispatch_backend[of E calls msgs s "fst (dispatch E calls msgs s)" "snd (dispatch E calls msgs s)"]
  by auto

lemma query_try_extends: "\<exists>evs. trace (snd (query_try E q s)) = trace s @ evs"
proof -
  let ?rq = "requestParams (this_tools s) (initial_messages q)"
  let ?s1 = "emit (Console_log (Request_params ?rq)) s"
  obtain r s2 where c: "chat E ?rq ?s1 = (r, s2)"
    by (cases "chat E ?rq ?s1")
  then have t2: "trace s2 = trace s @ [Console_log (Request_params ?rq), Chat_create ?rq r]"
    by (auto simp: chat_def emit_simps split: prod.splits)
  have w: "\<exists>evs. trace (snd (with_tool_calls E calls (initial_messages q) s2)) = trace s2 @ evs"
    for calls
    using dispatch_extends[of E calls "initial_messages q" s2]
    by (auto simp: with_tool_calls_def chat_def emit_simps Let_def
          split: prod.splits sum.splits)
  have "snd (query_try E q s) = s2 \<or>
        (\<exists>calls. snd (query_try E q s) = snd (with_tool_calls E calls (initial_messages q) s2))"
    using c by (auto simp: query_try_def Let_def split: sum.splits option.splits)
  then show ?thesis
  proof
    assume "snd (query_try E q s) = s2"
    with t2 show ?thesis by simp
  next
    assume "\<exists>calls. snd (query_try E q s) = snd (with_tool_calls E calls (initial_messages q) s2)"
    then obtain calls where
      e: "snd (query_try E q s) = snd (with_tool_calls E calls (initial_messages q) s2)" ..
    from w[of calls] obtain evs where
      "trace (snd (with_tool_calls E calls (initial_messages q) s2)) = trace s2 @ evs" ..
    with e t2 show ?thesis by simp
  qed
qed

lemma processQuery_error_logged:
  assumes "fst (processQuery E q s) = Inl e"
  shows "query_events E q s \<noteq> [] \<and> last (query_events E q s) = Console_error (Query_failed e)"
proof -
  obtain r s3 where q: "query_try E q s = (r, s3)"
    by (cases "query_try E q s")
  from query_try_extends[of E q s] q obtain evs where t: "trace s3 = trace s @ evs"
    by auto
  from assms q have "r = Inl e"
    by (simp add: processQuery_def rethrow_logged_fst)
  with processQuery_state(3)[OF q t] show ?thesis by simp
qed

lemma processQuery_calls_pinned:
  assumes "first_response E q s = Inr m" and "tool_calls m = Some calls"
  shows "tool_invocations (query_events E q s) =
           fst (backend_calls E calls (world_after_first E q s))"
    and "chat_requests (query_events E q s) =
           [(first_request s q, first_outcome E q s), (rq2, out2)] \<Longrightarrow>
         create E rq2 (snd (backend_calls E calls (world_after_first E q s))) =
           (out2, world (snd (processQuery E q s)))"
    and "chat_requests (query_events E q s) = [(first_request s q, first_outcome E q s)] \<Longrightarrow>
         world (snd (processQuery E q s)) = snd (backend_calls E calls (world_after_first E q s))"
proof -
  let ?pre = "[Console_log (Request_params (first_request s q)),
               Chat_create (first_request s q) (first_outcome E q s)]"
  let ?w1 = "world_after_first E q s"
  from query_try_calls[OF assms] obtain s2 where s2:
    "query_try E q s = with_tool_calls E calls (initial_messages q) s2"
    "trace s2 = trace s @ ?pre" "world s2 = ?w1" by blast
  obtain r s3 where d: "dispatch E calls (initial_messages q) s2 = (r, s3)"
    by (cases "dispatch E calls (initial_messages q) s2")
  from dispatch_backend[OF d] s2(3) obtain evs where b:
    "trace s3 = trace s2 @ evs" "chat_requests evs = []"
    "tool_invocations evs = fst (backend_calls E calls ?w1)"
    "world s3 = snd (backend_calls E calls ?w1)"
    by auto
  have all: "tool_invocations (query_events E q s) = fst (backend_calls E calls ?w1) \<and>
    (chat_requests (query_events E q s) =
           [(first_request s q, first_outcome E q s), (rq2, out2)] \<longrightarrow>
         create E rq2 (snd (backend_calls E calls ?w1)) = (out2, world (snd (processQuery E q s)))) \<and>
    (chat_requests (query_events E q s) = [(first_request s q, first_outcome E q s)] \<longrightarrow>
         world (snd (processQuery E q s)) = snd (backend_calls E calls ?w1))"
  proof (cases r)
    case (Inl e)
    have q: "query_try E q s = (Inl e, s3)"
      using s2 with_tool_calls_fail[OF d[unfolded Inl]] by simp
    have t: "trace s3 = trace s @ (?pre @ evs)"
      using b(1) s2(2) by simp
    from processQuery_events[OF q t] processQuery_state(1)[OF q t] b show ?thesis
      by (simp add: chat_requests_append tool_invocations_append)
  next
    case (Inr msgs')
    from with_tool_calls_ok[OF d[unfolded Inr]] obtain o2 s4 where w:
      "with_tool_calls E calls (initial_messages q) s2 = (final_answer o2, s4)"
      "trace s4 = trace s3 @ [Console_log (Last_messages msgs'),
                              Chat_create (finalParams E msgs') o2]"
      "create E (finalParams E msgs') (world s3) = (o2, world s4)"
      by blast
    have q: "query_try E q s = (final_answer o2, s4)"
      using s2 w by simp
    have t: "trace s4 = trace s @ (?pre @ evs @ [Console_log (Last_messages msgs'),
                              Chat_create (finalParams E msgs') o2])"
      using b(1) s2(2) w(2) by simp
    from processQuery_events[OF q t] processQuery_state(1)[OF q t] b w(3) show ?thesis
      by (auto simp add: chat_requests_append tool_invocations_append)
  qed
  from all show "tool_invocations (query_events E q s) = fst (backend_calls E calls ?w1)"
    by simp
  from all show "chat_requests (query_events E q s) =
           [(first_request s q, first_outcome E q s), (rq2, out2)] \<Longrightarrow>
         create E rq2 (snd (backend_calls E calls ?w1)) = (out2, world (snd (processQuery E q s)))"
    by simp
  from all show "chat_requests (query_events E q s) = [(first_request s q, first_outcome E q s)] \<Longrightarrow>
         world (snd (processQuery E q s)) = snd (backend_calls E calls ?w1)"
    by simp
qed

lemma processQuery_chat_failed:
  assumes "first_response E q s = Inl e"
  shows "fst (processQuery E q s) = Inl e \<and>
         chat_requests (query_events E q s) = [(first_request s q, first_outcome E q s)] \<and>
         tool_invocations (query_events E q s) = []"
proof -
  from query_try_chat_failed[OF assms] obtain s2 where s2:
    "query_try E q s = (Inl e, s2)"
    "trace s2 = trace s @ [Console_log (Request_params (first_request s q)),
                           Chat_create (first_request s q) (first_outcome E q s)]"
    by blast
  from processQuery_events[OF s2] show ?thesis by simp
qed

lemma processQuery_no_calls:
  assumes "first_response E q s = Inr m" and "tool_calls m = None"
  shows "fst (processQuery E q s) = Inr (or_default (content m) []) \<and>
         chat_requests (query_events E q s) = [(first_request s q, first_outcome E q s)] \<and>
         tool_invocations (query_events E q s) = []"
proof -
  from query_try_no_calls[OF assms] obtain s2 where s2:
    "query_try E q s = (Inr (or_default (content m) []), s2)"
    "trace s2 = trace s @ [Console_log (Request_params (first_request s q)),
                           Chat_create (first_request s q) (first_outcome E q s)]"
    by blast
  from processQuery_events[OF s2] show ?thesis by simp
qed

lemma processQuery_invocations:
  assumes "first_response E q s = Inr m" and "tool_calls m = Some calls"
  shows "length (tool_invocations (query_events E q s)) \<le> length calls \<and>
    map (\<lambda>(n, a, out). (n, Some a)) (tool_invocations (query_events E q s)) =
      map (\<lambda>c. (tc_name c, JSON_parse E (tc_arguments c)))
        (take (length (tool_invocations (query_events E q s))) calls)"
  using assms
proof (cases rule: processQuery_calls_cases)
  case (complete args results out2)
  then show ?thesis
    using succeeded_calls[of results args calls E] by simp
next
  case (unparsed args results)
  then show ?thesis
    using succeeded_calls[of results args calls E] by simp
next
  case (failed args results a e)
  then show ?thesis
    using succeeded_calls[of results args calls E] by (simp add: take_Suc_conv_app_nth)
qed

lemma processQuery_chats:
  "chat_requests (query_events E q s) = [(first_request s q, first_outcome E q s)] \<or>
   (\<exists>msgs out2. chat_requests (query_events E q s) =
      [(first_request s q, first_outcome E q s), (finalParams E msgs, out2)])"
proof (cases "first_response E q s")
  case (Inl e)
  from processQuery_chat_failed[OF this] show ?thesis by simp
next
  case (Inr m)
  show ?thesis
  proof (cases "tool_calls m")
    case None
    from processQuery_no_calls[OF Inr this] show ?thesis by simp
  next
    case (Some calls)
    from Inr Some show ?thesis
      by (cases rule: processQuery_calls_cases) auto
  qed
qed

section \<open>Runs of connectToServer\<close>

lemma endsWith_iff: "endsWith s t \<longleftrightarrow> (\<exists>p. s = p @ t)"
proof
  assume "endsWith s t"
  then have "s = take (length s - length t) s @ t"
    by (metis append_take_drop_id endsWith_def)
  then show "\<exists>p. s = p @ t" ..
next
  assume "\<exists>p. s = p @ t"
  then show "endsWith s t" by (auto simp: endsWith_def)
qed

lemma endsWith_py_not_js: "endsWith s ''.py'' \<Longrightarrow> \<not> endsWith s ''.js''"
  by (auto simp: endsWith_iff)

lemma connectToServer_refused:
  "\<not> endsWith path ''.js'' \<Longrightarrow> \<not> endsWith path ''.py'' \<Longrightarrow>
   connectToServer E path s = (Inl (Error ''Server script must be a .py or .js file''), s)"
  by (simp add: connectToServer_def)

lemma connectToServer_run:
  assumes "endsWith path ''.js'' \<or> endsWith path ''.py''"
  shows "\<exists>r tl.
     connect_events E path s =
       [Console_log (Starting (command_of path) path),
        New_transport (command_of path) [path],
        New_client ''weather-client'' ''1.0.0'',
        Client_connect (command_of path) [path] r] @ tl \<and>
     ((\<exists>e. r = Some e \<and> tl = [Console_error (Connect_failed e)] \<and>
           fst (connectToServer E path s) = Inl e \<and>
           this_tools (snd (connectToServer E path s)) = this_tools s)
      \<or> (\<exists>e. r = None \<and> tl = [List_tools (Inl e), Console_error (Connect_failed e)] \<and>
           fst (connectToServer E path s) = Inl e \<and>
           this_tools (snd (connectToServer E path s)) = this_tools s)
      \<or> (\<exists>raw. r = None \<and>
           tl = [List_tools (Inr raw), Console_log (Converted_tools (map to_chat_tool raw))] \<and>
           fst (connectToServer E path s) = Inr () \<and>
           this_tools (snd (connectToServer E path s)) = map to_chat_tool raw))"
  using assms
  by (auto simp: connect_events_def events_of_def connectToServer_def connect_try_def
        rethrow_logged_def command_of_def emit_def Let_def
      split: prod.splits option.splits sum.splits)

lemma connectToServer_exact:
  assumes "endsWith path ''.js'' \<or> endsWith path ''.py''"
    and "connect E (command_of path) [path] (world s) = (r, w1)"
    and "listTools E w1 = (lr, w2)"
  shows "connectToServer E path s =
    (case r of
       Some e \<Rightarrow>
         (Inl e,
          s\<lparr>world := w1,
            trace := trace s @
              [Console_log (Starting (command_of path) path),
               New_transport (command_of path) [path],
               New_client ''weather-client'' ''1.0.0'',
               Client_connect (command_of path) [path] r,
               Console_error (Connect_failed e)]\<rparr>)
     | None \<Rightarrow>
         (case lr of
            Inl e \<Rightarrow>
              (Inl e,
               s\<lparr>world := w2,
                 trace := trace s @
                   [Console_log (Starting (command_of path) path),
                    New_transport (command_of path) [path],
                    New_client ''weather-client'' ''1.0.0'',
                    Client_connect (command_of path) [path] r,
                    List_tools lr,
                    Console_error (Connect_failed e)]\<rparr>)
          | Inr raw \<Rightarrow>
              (Inr (),
               s\<lparr>world := w2,
                 trace := trace s @
                   [Console_log (Starting (command_of path) path),
                    New_transport (command_of path) [path],
                    New_client ''weather-client'' ''1.0.0'',
                    Client_connect (command_of path) [path] r,
                    List_tools lr,
                    Console_log (Converted_tools (map to_chat_tool raw))],
                 this_tools := map to_chat_tool raw\<rparr>)))"
  using assms
  by (auto simp: connectToServer_def connect_try_def rethrow_logged_def command_of_def emit_def
        Let_def split: option.splits sum.splits)

section \<open>Evaluating the concrete scenario\<close>

lemmas json_parse_defs =
  json_parse_def skip_ws_def is_ws_def is_digit_def digits_value_def parse_number_def
  unescape_def starts_with_def Let_def

lemma json_parse_latlon:
  "json_parse latlon_args =
     Some (JObj [(''latitude'', JNum (377 / 10)), (''longitude'', JNum (- 612 / 5))])"
  by (simp add: latlon_args_def json_parse_defs)

lemma json_parse_empty_object: "json_parse ''{}'' = Some (JObj [])"
  by (simp add: json_parse_defs)

lemma json_parse_not_json: "json_parse ''not json'' = None"
  by (simp add: json_parse_defs)

lemmas demo_defs =
  processQuery_def query_try_def with_tool_calls_def chat_def rethrow_logged_def
  first_message_def emit_def demo_env_def demo_client_def
  call_of_def assistant_text_def requestParams_def finalParams_def
  json_parse_latlon json_parse_empty_object json_parse_not_json forecast_def
  or_default_def Let_def query_events_def events_of_def first_response_def first_outcome_def
  first_request_def

lemma checked_demo_catalog: "checked_catalog demo_wire_catalog = Inr demo_catalog"
  by (simp add: checked_catalog_def demo_wire_catalog_def forecast_tool_def demo_catalog_def)

lemma checked_nameless_catalog:
  "checked_catalog nameless_wire_catalog =
     Inl (Rejected ''Invalid tools/list result: name is required'')"
  by (simp add: checked_catalog_def nameless_wire_catalog_def)

lemmas connect_defs =
  connect_events_def events_of_def connectToServer_def connect_try_def rethrow_logged_def
  emit_def Let_def demo_env_def nameless_env_def fresh_client_def endsWith_def
  checked_demo_catalog checked_nameless_catalog

section \<open>Properties of processQuery\<close>

text \<open>
  C1. When the first response carries the tool calls \<open>calls\<close>, the backend invocations
  of the run are those of \<open>backend_calls\<close>: made one after the other in the order of
  \<open>calls\<close>, each with the call's name and the parse of its arguments, each on the
  backend as the one before left it. Either a second chat request is made, on the world
  the last invocation left: then every call was invoked and answered, and the transcript
  of that request is the system and user messages followed, call by call in the same
  order, by an assistant message carrying exactly that call and a tool message carrying
  what the backend answered to that call and the call's id. Or the query stopped at the
  first call whose arguments do not parse, or at the first invocation that was rejected,
  with the one chat request made and the world as the last invocation left it.
\<close>

theorem transcript_pairing:
  assumes "first_response E query s = Inr m" and "tool_calls m = Some calls"
  shows "tool_invocations (query_events E query s) =
      fst (backend_calls E calls (world_after_first E query s)) \<and>
    length (tool_invocations (query_events E query s)) \<le> length calls \<and>
    map (\<lambda>(n, a, out). (n, Some a)) (tool_invocations (query_events E query s)) =
      map (\<lambda>c. (tc_name c, JSON_parse E (tc_arguments c)))
        (take (length (tool_invocations (query_events E query s))) calls) \<and>
    ((\<exists>rq2 out2 results.
        chat_requests (query_events E query s) =
          [(first_request s query, first_outcome E query s), (rq2, out2)] \<and>
        length results = length calls \<and>
        map (\<lambda>(n, a, out). out) (tool_invocations (query_events E query s)) = map Inr results \<and>
        messages rq2 =
          initial_messages query @
          concat (map (\<lambda>(c, res).
            [\<lparr>role = Assistant, content = None, tool_calls = Some [c], tool_call_id = None\<rparr>,
             \<lparr>role = Tool, content = Some (JSON_stringify E (result_content res)),
              tool_calls = None, tool_call_id = Some (tc_id c)\<rparr>]) (zip calls results)) \<and>
        create E rq2 (snd (backend_calls E calls (world_after_first E query s))) =
          (out2, world (snd (processQuery E query s))))
     \<or> (chat_requests (query_events E query s) =
           [(first_request s query, first_outcome E query s)] \<and>
         length (tool_invocations (query_events E query s)) < length calls \<and>
         JSON_parse E (tc_arguments (calls ! length (tool_invocations (query_events E query s)))) = None \<and>
         fst (processQuery E query s) = Inl SyntaxError \<and>
         world (snd (processQuery E query s)) =
           snd (backend_calls E calls (world_after_first E query s)))
     \<or> (chat_requests (query_events E query s) =
           [(first_request s query, first_outcome E query s)] \<and>
         (\<exists>n a e. tool_invocations (query_events E query s) \<noteq> [] \<and>
            last (tool_invocations (query_events E query s)) = (n, a, Inl e) \<and>
            fst (processQuery E query s) = Inl e) \<and>
         world (snd (processQuery E query s)) =
           snd (backend_calls E calls (world_after_first E query s))))"
proof -
  let ?invs = "tool_invocations (query_events E query s)"
  let ?bcalls = "backend_calls E calls (world_after_first E query s)"
  note pinned = processQuery_calls_pinned[OF assms]
  note order = processQuery_invocations[OF assms]
  from assms show ?thesis
  proof (cases rule: processQuery_calls_cases)
    case (complete args results out2)
    let ?rq2 = "finalParams E (initial_messages query @
              concat (map (\<lambda>(c, res). call_pair E c res) (zip calls results)))"
    have outs: "map (\<lambda>(n, a, out). out) ?invs = map Inr results"
      using complete(1,2,6) succeeded_outcomes[of results args calls] by simp
    have msgs: "messages ?rq2 =
          initial_messages query @
          concat (map (\<lambda>(c, res).
            [\<lparr>role = Assistant, content = None, tool_calls = Some [c], tool_call_id = None\<rparr>,
             \<lparr>role = Tool, content = Some (JSON_stringify E (result_content res)),
              tool_calls = None, tool_call_id = Some (tc_id c)\<rparr>]) (zip calls results))"
      by (simp add: finalParams_def call_pair_def)
    have w: "create E ?rq2 (snd ?bcalls) = (out2, world (snd (processQuery E query s)))"
      by (rule pinned(2)[OF complete(5)])
    from complete(1,5) outs msgs w have "\<exists>rq2 out2 results.
        chat_requests (query_events E query s) =
          [(first_request s query, first_outcome E query s), (rq2, out2)] \<and>
        length results = length calls \<and>
        map (\<lambda>(n, a, out). out) ?invs = map Inr results \<and>
        messages rq2 =
          initial_messages query @
          concat (map (\<lambda>(c, res).
            [\<lparr>role = Assistant, content = None, tool_calls = Some [c], tool_call_id = None\<rparr>,
             \<lparr>role = Tool, content = Some (JSON_stringify E (result_content res)),
              tool_calls = None, tool_call_id = Some (tc_id c)\<rparr>]) (zip calls results)) \<and>
        create E rq2 (snd ?bcalls) = (out2, world (snd (processQuery E query s)))"
      by blast
    with pinned(1) order show ?thesis by blast
  next
    case (unparsed args results)
    have l: "length ?invs = length args"
      using unparsed(1,2,7) by simp
    from pinned(3)[OF unparsed(6)] l unparsed(2,4,5,6) pinned(1) order show ?thesis
      by simp
  next
    case (failed args results a e)
    have "?invs \<noteq> []" and "last ?invs = (tc_name (calls ! length args), a, Inl e)"
      using failed(7) by simp_all
    with pinned(3)[OF failed(6)] failed(5,6) pinned(1) order show ?thesis
      by simp
  qed
qed

theorem transcript_pairing_witness:
  "first_response (demo_env asks_two answers None) ''weather?'' demo_client = Inr asks_two \<and>
   tool_calls asks_two = Some two_calls \<and>
   tool_invocations (query_events (demo_env asks_two answers None) ''weather?'' demo_client) =
     [(''get_forecast'',
       JObj [(''latitude'', JNum (377 / 10)), (''longitude'', JNum (- 612 / 5))], Inr sunny),
      (''get_forecast'', JObj [], Inr missing_latitude)] \<and>
   world (snd (processQuery (demo_env asks_two answers None) ''weather?'' demo_client)) = 4 \<and>
   (\<exists>rq2.
      chat_requests (query_events (demo_env asks_two answers None) ''weather?'' demo_client) =
        [(first_request demo_client ''weather?'',
          first_outcome (demo_env asks_two answers None) ''weather?'' demo_client),
         (rq2, Inr \<lparr>choices = [\<lparr>message = answers\<rparr>]\<rparr>)] \<and>
      messages rq2 =
        initial_messages ''weather?'' @
        [\<lparr>role = Assistant, content = None,
          tool_calls = Some [call_of ''call_A'' ''get_forecast'' latlon_args], tool_call_id = None\<rparr>,
         \<lparr>role = Tool, content = Some (demo_stringify (result_content sunny)),
          tool_calls = None, tool_call_id = Some ''call_A''\<rparr>,
         \<lparr>role = Assistant, content = None,
          tool_calls = Some [call_of ''call_B'' ''get_forecast'' ''{}''], tool_call_id = None\<rparr>,
         \<lparr>role = Tool, content = Some (demo_stringify (result_content missing_latitude)),
          tool_calls = None, tool_call_id = Some ''call_B''\<rparr>])"
proof -
  let ?E = "demo_env asks_two answers None"
  let ?invs = "tool_invocations (query_events ?E ''weather?'' demo_client)"
  have h1: "first_response ?E ''weather?'' demo_client = Inr asks_two"
    by (simp add: demo_defs asks_two_def two_calls_def)
  have h2: "tool_calls asks_two = Some two_calls"
    by (simp add: asks_two_def assistant_text_def)
  have E: "JSON_parse ?E = json_parse" "JSON_stringify ?E = demo_stringify"
    by (simp_all add: demo_env_def)
  have w1: "world_after_first ?E ''weather?'' demo_client = 1"
    by (simp add: world_after_first_def demo_env_def demo_client_def)
  have bc: "backend_calls ?E two_calls 1 =
     ([(''get_forecast'',
        JObj [(''latitude'', JNum (377 / 10)), (''longitude'', JNum (- 612 / 5))], Inr sunny),
       (''get_forecast'', JObj [], Inr missing_latitude)], 3)"
    by (simp add: two_calls_def call_of_def demo_env_def forecast_def
        json_parse_latlon json_parse_empty_object)
  note t = transcript_pairing[OF h1 h2, unfolded w1 bc fst_conv snd_conv]
  from t have invs: "?invs =
     [(''get_forecast'',
       JObj [(''latitude'', JNum (377 / 10)), (''longitude'', JNum (- 612 / 5))], Inr sunny),
      (''get_forecast'', JObj [], Inr missing_latitude)]"
    by simp
  have ans: "fst (processQuery ?E ''weather?'' demo_client) = Inr ''Sunny and 22C.''"
    by (simp add: demo_defs asks_two_def answers_def two_calls_def)
  from t ans obtain rq2 out2 results where r:
    "chat_requests (query_events ?E ''weather?'' demo_client) =
          [(first_request demo_client ''weather?'', first_outcome ?E ''weather?'' demo_client), (rq2, out2)]"
    "map (\<lambda>(n, a, out). out) ?invs = map Inr results"
    "messages rq2 =
          initial_messages ''weather?'' @
          concat (map (\<lambda>(c, res).
            [\<lparr>role = Assistant, content = None, tool_calls = Some [c], tool_call_id = None\<rparr>,
             \<lparr>role = Tool, content = Some (JSON_stringify ?E (result_content res)),
              tool_calls = None, tool_call_id = Some (tc_id c)\<rparr>]) (zip two_calls results))"
    "create ?E rq2 3 = (out2, world (snd (processQuery ?E ''weather?'' demo_client)))"
    by auto
  from r(2) invs have res: "results = [sunny, missing_latitude]"
    by (auto simp: map_eq_Cons_conv)
  from r(3) res have m: "messages rq2 =
        initial_messages ''weather?'' @
        [\<lparr>role = Assistant, content = None,
          tool_calls = Some [call_of ''call_A'' ''get_forecast'' latlon_args], tool_call_id = None\<rparr>,
         \<lparr>role = Tool, content = Some (demo_stringify (result_content sunny)),
          tool_calls = None, tool_call_id = Some ''call_A''\<rparr>,
         \<lparr>role = Assistant, content = None,
          tool_calls = Some [call_of ''call_B'' ''get_forecast'' ''{}''], tool_call_id = None\<rparr>,
         \<lparr>role = Tool, content = Some (demo_stringify (result_content missing_latitude)),
          tool_calls = None, tool_call_id = Some ''call_B''\<rparr>]"
    by (simp add: E two_calls_def call_of_def)
  have outs: "map snd (chat_requests (query_events ?E ''weather?'' demo_client)) =
      [Inr \<lparr>choices = [\<lparr>message = asks_two\<rparr>]\<rparr>, Inr \<lparr>choices = [\<lparr>message = answers\<rparr>]\<rparr>]"
    by (simp add: demo_defs asks_two_def answers_def two_calls_def)
  from r(1) outs have o2: "out2 = Inr \<lparr>choices = [\<lparr>message = answers\<rparr>]\<rparr>"
    by simp
  from r(4) have w: "world (snd (processQuery ?E ''weather?'' demo_client)) = snd (create ?E rq2 3)"
    by simp
  have "snd (create ?E rq2 3) = 4"
    by (simp add: demo_env_def)
  with w have w4: "world (snd (processQuery ?E ''weather?'' demo_client)) = 4"
    by simp
  from h1 h2 invs w4 r(1) o2 m show ?thesis by blast
qed

text \<open>
  When the first response has no \<open>tool_calls\<close> field (absent or null), exactly one
  chat request is made, the backend is not invoked, and the answer is the text content of
  that response, the empty string when the content is null or absent.
\<close>

lemma absent_tool_calls_single_round:
  assumes "first_response E query s = Inr m" and "tool_calls m = None"
  shows "fst (processQuery E query s) = Inr (case content m of None \<Rightarrow> [] | Some t \<Rightarrow> t) \<and>
         chat_requests (query_events E query s) =
           [(first_request s query, first_outcome E query s)] \<and>
         tool_invocations (query_events E query s) = []"
  using processQuery_no_calls[OF assms] by (simp add: or_default_empty)

lemma absent_tool_calls_example:
  "first_response (demo_env plain_reply answers None) ''hello'' demo_client = Inr plain_reply \<and>
   tool_calls plain_reply = None \<and> content plain_reply = None \<and>
   fst (processQuery (demo_env plain_reply answers None) ''hello'' demo_client) = Inr [] \<and>
   length (chat_requests (query_events (demo_env plain_reply answers None) ''hello'' demo_client)) = 1 \<and>
   tool_invocations (query_events (demo_env plain_reply answers None) ''hello'' demo_client) = []"
proof -
  have h1: "first_response (demo_env plain_reply answers None) ''hello'' demo_client = Inr plain_reply"
    by (simp add: demo_defs plain_reply_def)
  have h2: "tool_calls plain_reply = None" and h3: "content plain_reply = None"
    by (simp_all add: plain_reply_def assistant_text_def)
  from absent_tool_calls_single_round[OF h1 h2] h1 h2 h3 show ?thesis by simp
qed

text \<open>
  C2. A first response is to be answered in a single round when it carries no tool-call
  request. The test \<open>if (assistantMessage.tool_calls)\<close> misses the empty array, which
  is truthy: for a first response \<open>{content: 'Hello', tool_calls: []}\<close> a second chat
  request is made and the content of its response is returned, not \<open>Hello\<close>.
\<close>

theorem empty_tool_calls_second_round:
  "first_response (demo_env empty_calls_reply answers None) ''hello'' demo_client =
     Inr empty_calls_reply \<and>
   tool_calls empty_calls_reply = Some [] \<and>
   content empty_calls_reply = Some ''Hello'' \<and>
   length (chat_requests (query_events (demo_env empty_calls_reply answers None) ''hello'' demo_client)) = 2 \<and>
   fst (processQuery (demo_env empty_calls_reply answers None) ''hello'' demo_client) =
     Inr ''Sunny and 22C.''"
  by (simp add: demo_defs empty_calls_reply_def answers_def)

text \<open>
  C3 (amended). A tool call whose arguments do not parse stops the whole query, as a
  rejected invocation does: the outcome is an error (the \<open>SyntaxError\<close>, unless an
  earlier invocation had already been rejected), the error is logged on the console as
  the last event of the run and rethrown, the only chat request is the first, and neither
  that call nor any later one is dispatched: the backend is left as the invocations
  before that call left it.
\<close>

theorem unparsable_arguments_abort:
  assumes "first_response E query s = Inr m" and "tool_calls m = Some calls"
    and "i < length calls" and "JSON_parse E (tc_arguments (calls ! i)) = None"
  shows "chat_requests (query_events E query s) =
           [(first_request s query, first_outcome E query s)] \<and>
         length (tool_invocations (query_events E query s)) \<le> i \<and>
         tool_invocations (query_events E query s) =
           fst (backend_calls E calls (world_after_first E query s)) \<and>
         world (snd (processQuery E query s)) =
           snd (backend_calls E calls (world_after_first E query s)) \<and>
         (\<exists>e. fst (processQuery E query s) = Inl e \<and>
              query_events E query s \<noteq> [] \<and>
              last (query_events E query s) = Console_error (Query_failed e) \<and>
              (e = SyntaxError \<or>
               (\<exists>n a. tool_invocations (query_events E query s) \<noteq> [] \<and>
                  last (tool_invocations (query_events E query s)) = (n, a, Inl e))))"
proof -
  note pinned = processQuery_calls_pinned[OF assms(1,2)]
  from assms(1,2) show ?thesis
  proof (cases rule: processQuery_calls_cases)
    case (complete args results out2)
    from complete(3) have "map (\<lambda>c. JSON_parse E (tc_arguments c)) calls ! i = map Some args ! i"
      by simp
    with assms(3,4) complete(2) show ?thesis by simp
  next
    case (unparsed args results)
    have "length args \<le> i"
    proof (rule ccontr)
      assume "\<not> length args \<le> i"
      then have "i < length args" by simp
      from parsed_nth[OF unparsed(3) _ this] unparsed(2) assms(4) show False by simp
    qed
    then have l: "length (tool_invocations (query_events E query s)) \<le> i"
      using unparsed(1,2,7) by simp
    from processQuery_error_logged[OF unparsed(5)] unparsed(5,6) l pinned(1) pinned(3)[OF unparsed(6)]
    show ?thesis by simp
  next
    case (failed args results a e)
    have "length args \<le> i"
    proof (rule ccontr)
      assume "\<not> length args \<le> i"
      then have "i < length args" by simp
      from parsed_nth[OF failed(3) _ this] failed(2) assms(4) show False by simp
    qed
    moreover have "length args \<noteq> i"
      using failed(4) assms(4) by auto
    ultimately have "Suc (length args) \<le> i" by simp
    then have l: "length (tool_invocations (query_events E query s)) \<le> i"
      using failed(1,2,7) by simp
    have "tool_invocations (query_events E query s) \<noteq> []"
      and "last (tool_invocations (query_events E query s)) = (tc_name (calls ! length args), a, Inl e)"
      using failed(7) by simp_all
    with processQuery_error_logged[OF failed(5)] failed(5,6) l pinned(1) pinned(3)[OF failed(6)]
    show ?thesis by simp
  qed
qed

theorem unparsable_arguments_abort_witness:
  "first_response (demo_env asks_bad answers None) ''weather?'' demo_client = Inr asks_bad \<and>
   tool_calls asks_bad = Some bad_calls \<and> (0::nat) < length bad_calls \<and>
   JSON_parse (demo_env asks_bad answers None) (tc_arguments (bad_calls ! 0)) = None \<and>
   length (chat_requests (query_events (demo_env asks_bad answers None) ''weather?'' demo_client)) = 1 \<and>
   tool_invocations (query_events (demo_env asks_bad answers None) ''weather?'' demo_client) = [] \<and>
   world (snd (processQuery (demo_env asks_bad answers None) ''weather?'' demo_client)) = 1 \<and>
   fst (processQuery (demo_env asks_bad answers None) ''weather?'' demo_client) = Inl SyntaxError \<and>
   last (query_events (demo_env asks_bad answers None) ''weather?'' demo_client) =
     Console_error (Query_failed SyntaxError)"
proof -
  let ?E = "demo_env asks_bad answers None"
  have h1: "first_response ?E ''weather?'' demo_client = Inr asks_bad"
    by (simp add: demo_defs asks_bad_def)
  have h2: "tool_calls asks_bad = Some bad_calls"
    by (simp add: asks_bad_def assistant_text_def)
  have h3: "(0::nat) < length bad_calls"
    by (simp add: bad_calls_def)
  have h4: "JSON_parse ?E (tc_arguments (bad_calls ! 0)) = None"
    by (simp add: demo_env_def bad_calls_def call_of_def json_parse_not_json)
  have w1: "world_after_first ?E ''weather?'' demo_client = 1"
    by (simp add: world_after_first_def demo_env_def demo_client_def)
  have bc: "backend_calls ?E bad_calls 1 = ([], 1)"
    by (simp add: bad_calls_def call_of_def demo_env_def json_parse_not_json)
  from unparsable_arguments_abort[OF h1 h2 h3 h4, unfolded w1 bc fst_conv snd_conv] h1 h2 h3 h4
  show ?thesis by auto
qed

text \<open>
  Recovery at the level of the single call does not hold: with two calls of which the
  first has unparsable arguments, the query is aborted with the \<open>SyntaxError\<close> and the
  second call, whose arguments parse, is never dispatched.
\<close>

theorem unparsable_arguments_counterexample:
  "tool_calls asks_bad = Some bad_calls \<and>
   json_parse (tc_arguments (bad_calls ! 0)) = None \<and>
   json_parse (tc_arguments (bad_calls ! 1)) \<noteq> None \<and>
   fst (processQuery (demo_env asks_bad answers None) ''weather?'' demo_client) = Inl SyntaxError \<and>
   tool_invocations (query_events (demo_env asks_bad answers None) ''weather?'' demo_client) = [] \<and>
   length (chat_requests (query_events (demo_env asks_bad answers None) ''weather?'' demo_client)) = 1"
  by (simp add: demo_defs asks_bad_def answers_def bad_calls_def)

text \<open>
  C4 (amended). The policy depends on how the backend delivers the failure. A rejected
  invocation stops the query: its error is the outcome of \<open>processQuery\<close>, it is logged
  as the last event of the run, no answer is returned, the rejected invocation is the
  last one made and the one chat request of the run is the first. A failure the backend
  reports inside a returned result is not seen as one, since \<open>isError\<close> is never read:
  whenever every call is invoked and answered, whatever the flags of the results, the
  second request is made, on the world the last invocation left, and its transcript holds
  for each call the pair with the content of that call's result.
\<close>

theorem backend_failure_policies:
  "((n, a, Inl e) \<in> set (tool_invocations (query_events E query s)) \<longrightarrow>
      fst (processQuery E query s) = Inl e \<and>
      chat_requests (query_events E query s) =
        [(first_request s query, first_outcome E query s)] \<and>
      last (tool_invocations (query_events E query s)) = (n, a, Inl e) \<and>
      last (query_events E query s) = Console_error (Query_failed e)) \<and>
   (first_response E query s = Inr m \<and> tool_calls m = Some calls \<and>
    length results = length calls \<and>
    map (\<lambda>(n, a, out). out) (tool_invocations (query_events E query s)) = map Inr results \<longrightarrow>
      (\<exists>rq2 out2.
         chat_requests (query_events E query s) =
           [(first_request s query, first_outcome E query s), (rq2, out2)] \<and>
         messages rq2 =
           initial_messages query @
           concat (map (\<lambda>(c, res).
             [\<lparr>role = Assistant, content = None, tool_calls = Some [c], tool_call_id = None\<rparr>,
              \<lparr>role = Tool, content = Some (JSON_stringify E (result_content res)),
               tool_calls = None, tool_call_id = Some (tc_id c)\<rparr>]) (zip calls results)) \<and>
         fst (processQuery E query s) = final_answer out2 \<and>
         create E rq2 (snd (backend_calls E calls (world_after_first E query s))) =
           (out2, world (snd (processQuery E query s)))))"
proof (intro conjI impI)
  assume r: "(n, a, Inl e) \<in> set (tool_invocations (query_events E query s))"
  have main: "fst (processQuery E query s) = Inl e \<and>
      chat_requests (query_events E query s) =
        [(first_request s query, first_outcome E query s)] \<and>
      last (tool_invocations (query_events E query s)) = (n, a, Inl e)"
  proof (cases "first_response E query s")
    case (Inl e')
    from processQuery_chat_failed[OF this] r show ?thesis by simp
  next
    case (Inr m')
    show ?thesis
    proof (cases "tool_calls m'")
      case None
      from processQuery_no_calls[OF Inr this] r show ?thesis by simp
    next
      case (Some calls')
      from Inr Some show ?thesis
      proof (cases rule: processQuery_calls_cases)
        case (complete args results out2)
        with r succeeded_no_failure show ?thesis by metis
      next
        case (unparsed args results)
        with r succeeded_no_failure show ?thesis by metis
      next
        case (failed args results a' e')
        from r failed(7) succeeded_no_failure[of n a e]
        have "(n, a, Inl e) = (tc_name (calls' ! length args), a', Inl e')"
          by auto
        with failed show ?thesis by simp
      qed
    qed
  qed
  then show "fst (processQuery E query s) = Inl e"
    and "chat_requests (query_events E query s) =
        [(first_request s query, first_outcome E query s)]"
    and "last (tool_invocations (query_events E query s)) = (n, a, Inl e)"
    by simp_all
  from main processQuery_error_logged[of E query s e]
  show "last (query_events E query s) = Console_error (Query_failed e)"
    by simp
next
  assume h: "first_response E query s = Inr m \<and> tool_calls m = Some calls \<and>
    length results = length calls \<and>
    map (\<lambda>(n, a, out). out) (tool_invocations (query_events E query s)) = map Inr results"
  then have h1: "first_response E query s = Inr m" and h2: "tool_calls m = Some calls"
    and outs: "map (\<lambda>(n, a, out). out) (tool_invocations (query_events E query s)) = map Inr results"
    and len: "length results = length calls"
    by simp_all
  from h1 h2 show "\<exists>rq2 out2.
         chat_requests (query_events E query s) =
           [(first_request s query, first_outcome E query s), (rq2, out2)] \<and>
         messages rq2 =
           initial_messages query @
           concat (map (\<lambda>(c, res).
             [\<lparr>role = Assistant, content = None, tool_calls = Some [c], tool_call_id = None\<rparr>,
              \<lparr>role = Tool, content = Some (JSON_stringify E (result_content res)),
               tool_calls = None, tool_call_id = Some (tc_id c)\<rparr>]) (zip calls results)) \<and>
         fst (processQuery E query s) = final_answer out2 \<and>
         create E rq2 (snd (backend_calls E calls (world_after_first E query s))) =
           (out2, world (snd (processQuery E query s)))"
  proof (cases rule: processQuery_calls_cases)
    case (complete args results' out2)
    have "map (\<lambda>(n, a, out). out) (tool_invocations (query_events E query s)) = map Inr results'"
      using complete(1,2,6) succeeded_outcomes[of results' args calls] by simp
    with outs have "map Inr results' = (map Inr results :: (exn + tool_response) list)"
      by simp
    then have same: "results' = results"
      by (simp add: inj_map_eq_map)
    have "messages (finalParams E (initial_messages query @
              concat (map (\<lambda>(c, res). call_pair E c res) (zip calls results)))) =
          initial_messages query @
          concat (map (\<lambda>(c, res).
            [\<lparr>role = Assistant, content = None, tool_calls = Some [c], tool_call_id = None\<rparr>,
             \<lparr>role = Tool, content = Some (JSON_stringify E (result_content res)),
              tool_calls = None, tool_call_id = Some (tc_id c)\<rparr>]) (zip calls results))"
      by (simp add: finalParams_def call_pair_def)
    with complete(4,5) same processQuery_calls_pinned(2)[OF h1 h2 complete(5)]
    show ?thesis by blast
  next
    case (unparsed args results')
    from unparsed(1,2,7) have "length (tool_invocations (query_events E query s)) < length calls"
      by simp
    moreover from outs have "length (tool_invocations (query_events E query s)) = length results"
      using length_map by metis
    ultimately show ?thesis using len by simp
  next
    case (failed args results' a' e')
    from failed(7) have "Inl e' \<in> set (map (\<lambda>(n, a, out). out) (tool_invocations (query_events E query s)))"
      by simp
    with outs show ?thesis by auto
  qed
qed

theorem backend_failure_policies_witness:
  "(''get_alerts'', JObj [], Inl (Rejected ''tool failed'')) \<in>
     set (tool_invocations (query_events (demo_env asks_failing answers None) ''alerts?'' demo_client)) \<and>
   fst (processQuery (demo_env asks_failing answers None) ''alerts?'' demo_client) =
     Inl (Rejected ''tool failed'') \<and>
   length (chat_requests (query_events (demo_env asks_failing answers None) ''alerts?'' demo_client)) = 1 \<and>
   length (tool_invocations (query_events (demo_env asks_failing answers None) ''alerts?'' demo_client)) = 1 \<and>
   last (query_events (demo_env asks_failing answers None) ''alerts?'' demo_client) =
     Console_error (Query_failed (Rejected ''tool failed'')) \<and>
   first_response (demo_env asks_broken answers None) ''weather?'' demo_client = Inr asks_broken \<and>
   tool_calls asks_broken = Some broken_call \<and>
   map (\<lambda>(n, a, out). out)
     (tool_invocations (query_events (demo_env asks_broken answers None) ''weather?'' demo_client)) =
     map Inr [missing_latitude] \<and>
   isError missing_latitude \<and>
   length (chat_requests (query_events (demo_env asks_broken answers None) ''weather?'' demo_client)) = 2"
proof -
  let ?F = "demo_env asks_failing answers None"
  let ?B = "demo_env asks_broken answers None"
  have invs: "tool_invocations (query_events ?F ''alerts?'' demo_client) =
      [(''get_alerts'', JObj [], Inl (Rejected ''tool failed''))]"
    by (simp add: demo_defs asks_failing_def failing_calls_def)
  then have h: "(''get_alerts'', JObj [], Inl (Rejected ''tool failed'')) \<in>
     set (tool_invocations (query_events ?F ''alerts?'' demo_client))"
    by simp
  have b1: "first_response ?B ''weather?'' demo_client = Inr asks_broken"
    by (simp add: demo_defs asks_broken_def)
  have b2: "tool_calls asks_broken = Some broken_call"
    by (simp add: asks_broken_def assistant_text_def)
  have b3: "length [missing_latitude] = length broken_call"
    by (simp add: broken_call_def)
  have b4: "map (\<lambda>(n, a, out). out) (tool_invocations (query_events ?B ''weather?'' demo_client)) =
     map Inr [missing_latitude]"
    by (simp add: demo_defs asks_broken_def answers_def broken_call_def)
  have e: "isError missing_latitude"
    by (simp add: missing_latitude_def)
  note rejected =
    backend_failure_policies[of "''get_alerts''" "JObj []" "Rejected ''tool failed''" ?F "''alerts?''"
      demo_client, THEN conjunct1, rule_format, OF h]
  note reported =
    backend_failure_policies[of _ _ _ ?B "''weather?''" demo_client asks_broken broken_call
      "[missing_latitude]", THEN conjunct2, rule_format, OF conjI[OF b1 conjI[OF b2 conjI[OF b3 b4]]]]
  from reported have two:
    "length (chat_requests (query_events ?B ''weather?'' demo_client)) = 2"
    by auto
  from rejected h invs b1 b2 b4 e two show ?thesis by simp
qed

text \<open>
  One policy followed consistently does not hold. The same backend fails twice: the
  invocation of \<open>get_alerts\<close> is rejected, and the query is aborted with no second
  round; the invocation of \<open>get_forecast\<close> without a latitude returns a result that
  reports the error, and its content is appended as the tool message and the second
  round is made and answered.
\<close>

theorem backend_failure_counterexample:
  "tool_invocations (query_events (demo_env asks_failing answers None) ''alerts?'' demo_client) =
     [(''get_alerts'', JObj [], Inl (Rejected ''tool failed''))] \<and>
   fst (processQuery (demo_env asks_failing answers None) ''alerts?'' demo_client) =
     Inl (Rejected ''tool failed'') \<and>
   length (chat_requests (query_events (demo_env asks_failing answers None) ''alerts?'' demo_client)) = 1 \<and>
   tool_invocations (query_events (demo_env asks_broken answers None) ''weather?'' demo_client) =
     [(''get_forecast'', JObj [], Inr missing_latitude)] \<and>
   isError missing_latitude \<and>
   fst (processQuery (demo_env asks_broken answers None) ''weather?'' demo_client) =
     Inr ''Sunny and 22C.'' \<and>
   map (\<lambda>(rq, out). messages rq)
     (chat_requests (query_events (demo_env asks_broken answers None) ''weather?'' demo_client)) =
     [initial_messages ''weather?'',
      initial_messages ''weather?'' @
      [\<lparr>role = Assistant, content = None,
        tool_calls = Some [call_of ''call_A'' ''get_forecast'' ''{}''], tool_call_id = None\<rparr>,
       \<lparr>role = Tool, content = Some (demo_stringify (result_content missing_latitude)),
        tool_calls = None, tool_call_id = Some ''call_A''\<rparr>]]"
  by (simp add: demo_defs asks_failing_def failing_calls_def asks_broken_def broken_call_def
      answers_def missing_latitude_def)





text \<open>
  C9. With \<open>OPENAI_MODEL\<close> set to \<open>my-model\<close>, the first request of a query still names
  the model written in the code, and only the second names the override: the two rounds
  of one query name different models.
\<close>

theorem model_override_first_round:
  "OPENAI_MODEL (demo_env asks_one answers (Some ''my-model'')) = Some ''my-model'' \<and>
   map (\<lambda>(rq, out). model rq)
     (chat_requests (query_events (demo_env asks_one answers (Some ''my-model''))
        ''weather?'' demo_client)) =
     [''deepseek-ai/DeepSeek-V2.5'', ''my-model'']"
  by (simp add: demo_defs asks_one_def answers_def one_call_def)

section \<open>Properties of connectToServer\<close>

text \<open>
  C10. A path that ends in neither \<open>.js\<close> nor \<open>.py\<close> is refused with an error before
  anything is done: the client is returned as it was and no event is added to the trace,
  so no transport is created and nothing is launched. For a path ending in \<open>.py\<close> the
  transport is created with the command \<open>python\<close> and the path as its only argument,
  and the client is connected through it: the outcome recorded is what \<open>connect\<close>
  answers to that command and that argument on the world as it was, and the run leaves
  the world as that connection, and the listing of the tools when the connection
  succeeds, leave it. For a path ending in \<open>.js\<close> the same holds with \<open>node\<close>.
\<close>

theorem server_script_kind:
  "(\<not> endsWith path ''.js'' \<and> \<not> endsWith path ''.py'' \<longrightarrow>
      connectToServer E path s = (Inl (Error ''Server script must be a .py or .js file''), s) \<and>
      connect_events E path s = []) \<and>
   (endsWith path ''.py'' \<longrightarrow>
      transports (connect_events E path s) = [(''python'', [path]), (''python'', [path])] \<and>
      take 4 (connect_events E path s) =
        [Console_log (Starting ''python'' path),
         New_transport ''python'' [path],
         New_client ''weather-client'' ''1.0.0'',
         Client_connect ''python'' [path] (fst (connect E ''python'' [path] (world s)))] \<and>
      world (snd (connectToServer E path s)) =
        (case fst (connect E ''python'' [path] (world s)) of
           Some e \<Rightarrow> snd (connect E ''python'' [path] (world s))
         | None \<Rightarrow> snd (listTools E (snd (connect E ''python'' [path] (world s))))) \<and>
      (\<forall>e. fst (connect E ''python'' [path] (world s)) = Some e \<longrightarrow>
         fst (connectToServer E path s) = Inl e)) \<and>
   (endsWith path ''.js'' \<longrightarrow>
      transports (connect_events E path s) = [(''node'', [path]), (''node'', [path])] \<and>
      take 4 (connect_events E path s) =
        [Console_log (Starting ''node'' path),
         New_transport ''node'' [path],
         New_client ''weather-client'' ''1.0.0'',
         Client_connect ''node'' [path] (fst (connect E ''node'' [path] (world s)))] \<and>
      world (snd (connectToServer E path s)) =
        (case fst (connect E ''node'' [path] (world s)) of
           Some e \<Rightarrow> snd (connect E ''node'' [path] (world s))
         | None \<Rightarrow> snd (listTools E (snd (connect E ''node'' [path] (world s))))) \<and>
      (\<forall>e. fst (connect E ''node'' [path] (world s)) = Some e \<longrightarrow>
         fst (connectToServer E path s) = Inl e))"
proof -
  have launched:
    "transports (connect_events E path s) = [(command_of path, [path]), (command_of path, [path])] \<and>
      take 4 (connect_events E path s) =
        [Console_log (Starting (command_of path) path),
         New_transport (command_of path) [path],
         New_client ''weather-client'' ''1.0.0'',
         Client_connect (command_of path) [path]
           (fst (connect E (command_of path) [path] (world s)))] \<and>
      world (snd (connectToServer E path s)) =
        (case fst (connect E (command_of path) [path] (world s)) of
           Some e \<Rightarrow> snd (connect E (command_of path) [path] (world s))
         | None \<Rightarrow> snd (listTools E (snd (connect E (command_of path) [path] (world s))))) \<and>
      (\<forall>e. fst (connect E (command_of path) [path] (world s)) = Some e \<longrightarrow>
         fst (connectToServer E path s) = Inl e)"
    if ok: "endsWith path ''.js'' \<or> endsWith path ''.py''"
  proof -
    obtain r w1 where c: "connect E (command_of path) [path] (world s) = (r, w1)"
      by (cases "connect E (command_of path) [path] (world s)")
    obtain lr w2 where l: "listTools E w1 = (lr, w2)"
      by (cases "listTools E w1")
    from connectToServer_exact[OF ok c l] c l show ?thesis
      by (simp add: connect_events_def events_of_def split: option.splits sum.splits)
  qed
  show ?thesis
  proof (intro conjI impI)
    assume "\<not> endsWith path ''.js'' \<and> \<not> endsWith path ''.py''"
    then show "connectToServer E path s = (Inl (Error ''Server script must be a .py or .js file''), s)"
      by (simp add: connectToServer_refused)
    then show "connect_events E path s = []"
      by (simp add: connect_events_def events_of_def)
  next
    assume py: "endsWith path ''.py''"
    then have c: "command_of path = ''python''"
      by (simp add: command_of_def)
    from py have ok: "endsWith path ''.js'' \<or> endsWith path ''.py''" by simp
    note l = launched[OF ok, unfolded c]
    from l show "transports (connect_events E path s) = [(''python'', [path]), (''python'', [path])]"
      by simp
    from l show "take 4 (connect_events E path s) =
        [Console_log (Starting ''python'' path),
         New_transport ''python'' [path],
         New_client ''weather-client'' ''1.0.0'',
         Client_connect ''python'' [path] (fst (connect E ''python'' [path] (world s)))]"
      by simp
    from l show "world (snd (connectToServer E path s)) =
        (case fst (connect E ''python'' [path] (world s)) of
           Some e \<Rightarrow> snd (connect E ''python'' [path] (world s))
         | None \<Rightarrow> snd (listTools E (snd (connect E ''python'' [path] (world s)))))"
      by simp
    from l show "\<forall>e. fst (connect E ''python'' [path] (world s)) = Some e \<longrightarrow>
         fst (connectToServer E path s) = Inl e"
      by simp
  next
    assume js: "endsWith path ''.js''"
    then have c: "command_of path = ''node''"
      using endsWith_py_not_js[of path] by (auto simp: command_of_def)
    from js have ok: "endsWith path ''.js'' \<or> endsWith path ''.py''" by simp
    note l = launched[OF ok, unfolded c]
    from l show "transports (connect_events E path s) = [(''node'', [path]), (''node'', [path])]"
      by simp
    from l show "take 4 (connect_events E path s) =
        [Console_log (Starting ''node'' path),
         New_transport ''node'' [path],
         New_client ''weather-client'' ''1.0.0'',
         Client_connect ''node'' [path] (fst (connect E ''node'' [path] (world s)))]"
      by simp
    from l show "world (snd (connectToServer E path s)) =
        (case fst (connect E ''node'' [path] (world s)) of
           Some e \<Rightarrow> snd (connect E ''node'' [path] (world s))
         | None \<Rightarrow> snd (listTools E (snd (connect E ''node'' [path] (world s)))))"
      by simp
    from l show "\<forall>e. fst (connect E ''node'' [path] (world s)) = Some e \<longrightarrow>
         fst (connectToServer E path s) = Inl e"
      by simp
  qed
qed

theorem server_script_kind_witness:
  "\<not> endsWith ''server.txt'' ''.js'' \<and> \<not> endsWith ''server.txt'' ''.py'' \<and>
   connectToServer (demo_env plain_reply answers None) ''server.txt'' fresh_client =
     (Inl (Error ''Server script must be a .py or .js file''), fresh_client) \<and>
   connect_events (demo_env plain_reply answers None) ''server.txt'' fresh_client = [] \<and>
   endsWith ''server.py'' ''.py'' \<and>
   transports (connect_events (demo_env plain_reply answers None) ''server.py'' fresh_client) =
     [(''python'', [''server.py'']), (''python'', [''server.py''])] \<and>
   take 4 (connect_events (demo_env plain_reply answers None) ''server.py'' fresh_client) =
     [Console_log (Starting ''python'' ''server.py''),
      New_transport ''python'' [''server.py''],
      New_client ''weather-client'' ''1.0.0'',
      Client_connect ''python'' [''server.py''] None] \<and>
   world (snd (connectToServer (demo_env plain_reply answers None) ''server.py'' fresh_client)) = 2 \<and>
   endsWith ''build/index.js'' ''.js'' \<and>
   transports (connect_events (demo_env plain_reply answers None) ''build/index.js'' fresh_client) =
     [(''node'', [''build/index.js'']), (''node'', [''build/index.js''])] \<and>
   world (snd (connectToServer (demo_env plain_reply answers None) ''build/index.js'' fresh_client)) = 2 \<and>
   fst (connect (demo_env plain_reply answers None) ''bash'' [''server.py''] 0) =
     Some (Rejected ''spawn failed'')"
proof -
  let ?E = "demo_env plain_reply answers None"
  have a: "\<not> endsWith ''server.txt'' ''.js''" "\<not> endsWith ''server.txt'' ''.py''"
    and b: "endsWith ''server.py'' ''.py''" and c: "endsWith ''build/index.js'' ''.js''"
    by (simp_all add: endsWith_def)
  have py: "connect ?E ''python'' [''server.py''] (world fresh_client) = (None, 1)"
    and js: "connect ?E ''node'' [''build/index.js''] (world fresh_client) = (None, 1)"
    and l: "snd (listTools ?E 1) = 2"
    and sh: "fst (connect ?E ''bash'' [''server.py''] 0) = Some (Rejected ''spawn failed'')"
    by (simp_all add: demo_env_def fresh_client_def)
  from a b c sh
    server_script_kind[of "''server.txt''" ?E fresh_client]
    server_script_kind[of "''server.py''" ?E fresh_client, unfolded py fst_conv snd_conv l]
    server_script_kind[of "''build/index.js''" ?E fresh_client, unfolded js fst_conv snd_conv l]
  show ?thesis by simp
qed

text \<open>
  C6 (amended). No descriptor is skipped and no warning is logged. The outcome in the
  trace is what \<open>listTools\<close> answers on the world the connection left. When it resolves
  to a catalog, every tool of the catalog is converted and registered, in the order of the
  catalog, and the console receives the two log lines of the normal run. When it throws,
  as it does for a catalog with a descriptor that lacks a name, the whole registry build
  is aborted: the error is logged and rethrown and \<open>this.tools\<close> is left as it was, so
  that no tool of that catalog is registered.
\<close>

theorem registry_all_or_nothing:
  "(List_tools (Inr raw) \<in> set (connect_events E path s) \<longrightarrow>
      fst (connectToServer E path s) = Inr () \<and>
      this_tools (snd (connectToServer E path s)) = map to_chat_tool raw \<and>
      length (this_tools (snd (connectToServer E path s))) = length raw \<and>
      map fn_name (this_tools (snd (connectToServer E path s))) = map name raw \<and>
      console_events (connect_events E path s) =
        [Console_log (Starting (command_of path) path),
         Console_log (Converted_tools (map to_chat_tool raw))]) \<and>
   (List_tools (Inl e) \<in> set (connect_events E path s) \<longrightarrow>
      fst (connectToServer E path s) = Inl e \<and>
      this_tools (snd (connectToServer E path s)) = this_tools s \<and>
      console_events (connect_events E path s) =
        [Console_log (Starting (command_of path) path),
         Console_error (Connect_failed e)]) \<and>
   (List_tools lr \<in> set (connect_events E path s) \<longrightarrow>
      listTools E (snd (connect E (command_of path) [path] (world s))) =
        (lr, world (snd (connectToServer E path s))))"
proof -
  have none: "connect_events E path s = []"
    if "\<not> (endsWith path ''.js'' \<or> endsWith path ''.py'')"
    using that by (simp add: connectToServer_refused connect_events_def events_of_def)
  obtain r w1 where c: "connect E (command_of path) [path] (world s) = (r, w1)"
    by (cases "connect E (command_of path) [path] (world s)")
  obtain l w2 where l: "listTools E w1 = (l, w2)"
    by (cases "listTools E w1")
  have run: "fst (connectToServer E path s) =
        (case x of Inl e \<Rightarrow> Inl e | Inr raw \<Rightarrow> Inr ()) \<and>
      this_tools (snd (connectToServer E path s)) =
        (case x of Inl e \<Rightarrow> this_tools s | Inr raw \<Rightarrow> map to_chat_tool raw) \<and>
      console_events (connect_events E path s) =
        [Console_log (Starting (command_of path) path),
         (case x of Inl e \<Rightarrow> Console_error (Connect_failed e)
          | Inr raw \<Rightarrow> Console_log (Converted_tools (map to_chat_tool raw)))] \<and>
      listTools E (snd (connect E (command_of path) [path] (world s))) =
        (x, world (snd (connectToServer E path s)))"
    if m: "List_tools x \<in> set (connect_events E path s)" for x
  proof -
    have ok: "endsWith path ''.js'' \<or> endsWith path ''.py''"
    proof (rule ccontr)
      assume "\<not> (endsWith path ''.js'' \<or> endsWith path ''.py'')"
      from none[OF this] m show False by simp
    qed
    from connectToServer_exact[OF ok c l] m c l show ?thesis
      by (auto simp: connect_events_def events_of_def split: option.splits sum.splits)
  qed
  show ?thesis
  proof (intro conjI impI)
    assume m: "List_tools (Inr raw) \<in> set (connect_events E path s)"
    from run[OF m] show "fst (connectToServer E path s) = Inr ()"
      and t: "this_tools (snd (connectToServer E path s)) = map to_chat_tool raw"
      and "console_events (connect_events E path s) =
        [Console_log (Starting (command_of path) path),
         Console_log (Converted_tools (map to_chat_tool raw))]"
      by simp_all
    from t show "length (this_tools (snd (connectToServer E path s))) = length raw"
      by simp
    from t show "map fn_name (this_tools (snd (connectToServer E path s))) = map name raw"
      by (simp add: to_chat_tool_def comp_def)
  next
    assume m: "List_tools (Inl e) \<in> set (connect_events E path s)"
    from run[OF m] show "fst (connectToServer E path s) = Inl e"
      and "this_tools (snd (connectToServer E path s)) = this_tools s"
      and "console_events (connect_events E path s) =
        [Console_log (Starting (command_of path) path),
         Console_error (Connect_failed e)]"
      by simp_all
  next
    assume m: "List_tools lr \<in> set (connect_events E path s)"
    from run[OF m] show "listTools E (snd (connect E (command_of path) [path] (world s))) =
        (lr, world (snd (connectToServer E path s)))"
      by simp
  qed
qed

theorem registry_all_or_nothing_witness:
  "List_tools (Inr demo_catalog) \<in>
     set (connect_events (demo_env plain_reply answers None) ''build/index.js'' fresh_client) \<and>
   fst (connectToServer (demo_env plain_reply answers None) ''build/index.js'' fresh_client) = Inr () \<and>
   map fn_name (this_tools (snd (connectToServer (demo_env plain_reply answers None)
      ''build/index.js'' fresh_client))) = [''get_alerts'', ''get_forecast''] \<and>
   List_tools (Inl (Rejected ''Invalid tools/list result: name is required'')) \<in>
     set (connect_events nameless_env ''build/index.js'' fresh_client) \<and>
   fst (connectToServer nameless_env ''build/index.js'' fresh_client) =
     Inl (Rejected ''Invalid tools/list result: name is required'') \<and>
   this_tools (snd (connectToServer nameless_env ''build/index.js'' fresh_client)) = [] \<and>
   world (snd (connectToServer nameless_env ''build/index.js'' fresh_client)) = 2"
proof -
  let ?E = "demo_env plain_reply answers None"
  let ?e = "Rejected ''Invalid tools/list result: name is required''"
  have h: "List_tools (Inr demo_catalog) \<in> set (connect_events ?E ''build/index.js'' fresh_client)"
    by (simp add: connect_defs)
  have g: "List_tools (Inl ?e) \<in> set (connect_events nameless_env ''build/index.js'' fresh_client)"
    by (simp add: connect_defs)
  have n: "map name demo_catalog = [''get_alerts'', ''get_forecast'']"
    by (simp add: demo_catalog_def)
  have t: "this_tools fresh_client = []"
    by (simp add: fresh_client_def)
  have c: "command_of ''build/index.js'' = ''node''"
    by (simp add: command_of_def endsWith_def)
  have l: "listTools nameless_env (snd (connect nameless_env ''node'' [''build/index.js'']
      (world fresh_client))) = (Inl ?e, 2)"
    by (simp add: nameless_env_def demo_env_def fresh_client_def checked_nameless_catalog)
  note good = registry_all_or_nothing[of demo_catalog ?E "''build/index.js''" fresh_client,
      THEN conjunct1, rule_format, OF h]
  note bad = registry_all_or_nothing[of _ nameless_env "''build/index.js''" fresh_client ?e "Inl ?e",
      THEN conjunct2]
  from bad g have b1: "fst (connectToServer nameless_env ''build/index.js'' fresh_client) = Inl ?e"
    and b2: "this_tools (snd (connectToServer nameless_env ''build/index.js'' fresh_client)) = []"
    and b3: "listTools nameless_env (snd (connect nameless_env (command_of ''build/index.js'')
        [''build/index.js''] (world fresh_client))) =
        (Inl ?e, world (snd (connectToServer nameless_env ''build/index.js'' fresh_client)))"
    by (simp_all add: t)
  from b3 l have b4: "world (snd (connectToServer nameless_env ''build/index.js'' fresh_client)) = 2"
    unfolding c by simp
  from good have g1: "fst (connectToServer ?E ''build/index.js'' fresh_client) = Inr ()"
    by simp
  note g2 = good[THEN conjunct2, THEN conjunct2, THEN conjunct2, THEN conjunct1, unfolded n]
  from g1 g2 h g b1 b2 b4 show ?thesis by (intro conjI)
qed

text \<open>
  Skipping with a warning does not hold, nor does a partial tool set: the catalog has a
  descriptor without a name beside the well-formed \<open>get_forecast\<close>; \<open>listTools\<close>
  throws, \<open>connectToServer\<close> fails with that error, the console receives an error and no
  warning, and no tool is registered, \<open>get_forecast\<close> included.
\<close>

theorem nameless_tool_counterexample:
  "wire_name (nameless_wire_catalog ! 0) = None \<and>
   wire_name (nameless_wire_catalog ! 1) = Some ''get_forecast'' \<and>
   listTools nameless_env 1 =
     (Inl (Rejected ''Invalid tools/list result: name is required''), 2) \<and>
   fst (connectToServer nameless_env ''build/index.js'' fresh_client) =
     Inl (Rejected ''Invalid tools/list result: name is required'') \<and>
   this_tools (snd (connectToServer nameless_env ''build/index.js'' fresh_client)) = [] \<and>
   console_events (connect_events nameless_env ''build/index.js'' fresh_client) =
     [Console_log (Starting ''node'' ''build/index.js''),
      Console_error (Connect_failed (Rejected ''Invalid tools/list result: name is required''))]"
proof -
  have a: "wire_name (nameless_wire_catalog ! 0) = None"
    "wire_name (nameless_wire_catalog ! 1) = Some ''get_forecast''"
    by (simp_all add: nameless_wire_catalog_def forecast_tool_def)
  show ?thesis
    unfolding a by (simp add: connect_defs)
qed

text \<open>
  C7. Whenever the backend's catalog is received, the descriptor registered for a tool
  has the tool's name, its description (empty when absent) and the fixed
  latitude/longitude schema: the tool's \<open>inputSchema\<close> is not read. The first chat
  request of a query declares the registered tools with that same schema, and no other
  request of the run declares tools.
\<close>

theorem fixed_parameter_schema:
  "(List_tools (Inr raw) \<in> set (connect_events E path s) \<longrightarrow>
      this_tools (snd (connectToServer E path s)) =
        map (\<lambda>tool. \<lparr>fn_name = name tool,
                      fn_description = (case description tool of None \<Rightarrow> [] | Some d \<Rightarrow> d),
                      fn_parameters = latlon_schema\<rparr>) raw) \<and>
   tools (first_request c query) =
     Some (map (\<lambda>tool. \<lparr>fn_name = fn_name tool, fn_description = fn_description tool,
                         fn_parameters = latlon_schema, strict = False\<rparr>) (this_tools c)) \<and>
   (\<forall>rq out decls. (rq, out) \<in> set (chat_requests (query_events E query c)) \<longrightarrow>
      tools rq = Some decls \<longrightarrow>
      rq = first_request c query \<and> (\<forall>d \<in> set decls. fn_parameters d = latlon_schema))"
proof (intro conjI impI allI)
  assume a: "List_tools (Inr raw) \<in> set (connect_events E path s)"
  have "endsWith path ''.js'' \<or> endsWith path ''.py''"
  proof (rule ccontr)
    assume "\<not> (endsWith path ''.js'' \<or> endsWith path ''.py'')"
    then have "connect_events E path s = []"
      by (simp add: connectToServer_refused connect_events_def events_of_def)
    with a show False by simp
  qed
  from connectToServer_run[OF this, of E s] a
  have "this_tools (snd (connectToServer E path s)) = map to_chat_tool raw"
    by auto
  then show "this_tools (snd (connectToServer E path s)) =
        map (\<lambda>tool. \<lparr>fn_name = name tool,
                      fn_description = (case description tool of None \<Rightarrow> [] | Some d \<Rightarrow> d),
                      fn_parameters = latlon_schema\<rparr>) raw"
    by (simp add: to_chat_tool_def or_default_empty)
next
  show t1: "tools (first_request c query) =
     Some (map (\<lambda>tool. \<lparr>fn_name = fn_name tool, fn_description = fn_description tool,
                         fn_parameters = latlon_schema, strict = False\<rparr>) (this_tools c))"
    by (simp add: first_request_def requestParams_def)
  fix rq out decls
  assume m: "(rq, out) \<in> set (chat_requests (query_events E query c))"
    and d: "tools rq = Some decls"
  have "tools (finalParams E msgs) = None" for msgs
    by (simp add: finalParams_def)
  with processQuery_chats[of E query c] m d show r: "rq = first_request c query"
    by auto
  from d show "\<forall>d \<in> set decls. fn_parameters d = latlon_schema"
    unfolding r t1 by auto
qed

theorem fixed_parameter_schema_witness:
  "List_tools (Inr demo_catalog) \<in>
     set (connect_events (demo_env asks_one answers None) ''build/index.js'' demo_client) \<and>
   map inputSchema demo_catalog =
     [JObj [],
      JObj [(''type'', JStr ''object''),
            (''properties'', JObj [(''city'', JObj [(''type'', JStr ''string'')])])]] \<and>
   this_tools (snd (connectToServer (demo_env asks_one answers None) ''build/index.js'' demo_client)) =
     [\<lparr>fn_name = ''get_alerts'', fn_description = [], fn_parameters = latlon_schema\<rparr>,
      \<lparr>fn_name = ''get_forecast'', fn_description = ''Get weather forecast'',
       fn_parameters = latlon_schema\<rparr>] \<and>
   (first_request demo_client ''weather?'',
    first_outcome (demo_env asks_one answers None) ''weather?'' demo_client) \<in>
     set (chat_requests (query_events (demo_env asks_one answers None) ''weather?'' demo_client)) \<and>
   tools (first_request demo_client ''weather?'') =
     Some [\<lparr>fn_name = ''get_forecast'', fn_description = ''Get weather forecast'',
            fn_parameters = latlon_schema, strict = False\<rparr>]"
proof -
  let ?E = "demo_env asks_one answers None"
  have h: "List_tools (Inr demo_catalog) \<in> set (connect_events ?E ''build/index.js'' demo_client)"
    by (simp add: connect_events_def events_of_def connectToServer_def connect_try_def
        rethrow_logged_def emit_def Let_def demo_env_def demo_client_def endsWith_def
        checked_catalog_def demo_wire_catalog_def forecast_tool_def demo_catalog_def)
  have s: "map inputSchema demo_catalog =
     [JObj [],
      JObj [(''type'', JStr ''object''),
            (''properties'', JObj [(''city'', JObj [(''type'', JStr ''string'')])])]]"
    by (simp add: demo_catalog_def)
  have m: "(first_request demo_client ''weather?'', first_outcome ?E ''weather?'' demo_client) \<in>
     set (chat_requests (query_events ?E ''weather?'' demo_client))"
    using processQuery_chats[of ?E "''weather?''" demo_client] by auto
  note t = fixed_parameter_schema[of demo_catalog ?E "''build/index.js''" demo_client demo_client "''weather?''"]
  from t h have "this_tools (snd (connectToServer ?E ''build/index.js'' demo_client)) =
     [\<lparr>fn_name = ''get_alerts'', fn_description = [], fn_parameters = latlon_schema\<rparr>,
      \<lparr>fn_name = ''get_forecast'', fn_description = ''Get weather forecast'',
       fn_parameters = latlon_schema\<rparr>]"
    by (simp add: demo_catalog_def)
  moreover from t have "tools (first_request demo_client ''weather?'') =
     Some [\<lparr>fn_name = ''get_forecast'', fn_description = ''Get weather forecast'',
            fn_parameters = latlon_schema, strict = False\<rparr>]"
    by (simp add: demo_client_def)
  ultimately show ?thesis using h s m by blast
qed

end
